theory Spec2Isabelle
  imports Complex_Main "HOL-Library.AList"
begin

section \<open>JavaScript values\<close>

text \<open>
  The server (\<^verbatim>\<open>index.js\<close>) is JavaScript. A JavaScript number is a double: a finite
  value, one of the two infinities, or NaN. The finite values are modelled by \<^typ>\<open>real\<close>
  (so \<open>-0\<close> and \<open>+0\<close> coincide and no rounding happens); the three special values are
  kept, since the comparisons and \<^verbatim>\<open>Math.max\<close>/\<^verbatim>\<open>Math.min\<close> treat them specially.
\<close>

datatype jsnum = NaN | NInf | Fin real | PInf

text \<open>The values of the fields of an object that is sent as JSON.\<close>

datatype jsval = JUndefined | JNull | JBool bool | JNum jsnum | JStr string

text \<open>
  The values that arrive in a request, as a field of the JSON body or as a query
  parameter: absent (\<^verbatim>\<open>undefined\<close>), \<^verbatim>\<open>null\<close>, a boolean, a number or a string.
  \<open>RNum x s\<close> is the number \<open>x\<close> together with \<open>s\<close>, the text that JavaScript prints
  for it (\<^verbatim>\<open>String(x)\<close>, as in \<open>RNum 800 ''800''\<close> or \<open>RNum (10 ^ 21) ''1e+21''\<close>): the
  shortest-digits printing of a double is not computed here, it comes with the value.
\<close>

datatype reqval = RAbsent | RNull | RBool bool | RNum real string | RStr string

text \<open>The operator \<^verbatim>\<open><=\<close> on numbers: false whenever an operand is NaN.\<close>

fun js_le :: "jsnum \<Rightarrow> jsnum \<Rightarrow> bool" where
  "js_le (Fin a) (Fin b) = (a \<le> b)"
| "js_le NaN _ = False"
| "js_le _ NaN = False"
| "js_le NInf _ = True"
| "js_le _ PInf = True"
| "js_le _ _ = False"

text \<open>The operator \<^verbatim>\<open><\<close> on numbers.\<close>

fun js_lt :: "jsnum \<Rightarrow> jsnum \<Rightarrow> bool" where
  "js_lt (Fin a) (Fin b) = (a < b)"
| "js_lt NaN _ = False"
| "js_lt _ NaN = False"
| "js_lt PInf _ = False"
| "js_lt _ NInf = False"
| "js_lt _ _ = True"

text \<open>\<^verbatim>\<open>Math.max\<close> and \<^verbatim>\<open>Math.min\<close> of two numbers: NaN when either argument is NaN.\<close>

definition Math_max :: "jsnum \<Rightarrow> jsnum \<Rightarrow> jsnum" where
  "Math_max a b = (if a = NaN \<or> b = NaN then NaN else if js_le a b then b else a)"

definition Math_min :: "jsnum \<Rightarrow> jsnum \<Rightarrow> jsnum" where
  "Math_min a b = (if a = NaN \<or> b = NaN then NaN else if js_le a b then a else b)"

text \<open>\<^verbatim>\<open>Math.round\<close>: the nearest integer, a tie going up; NaN and the infinities stay.\<close>

fun Math_round :: "jsnum \<Rightarrow> jsnum" where
  "Math_round (Fin r) = Fin (of_int \<lfloor>r + 1 / 2\<rfloor>)"
| "Math_round x = x"

text \<open>Truthiness, as \<^verbatim>\<open>||\<close>, \<^verbatim>\<open>&&\<close>, \<^verbatim>\<open>!\<close> and \<^verbatim>\<open>if\<close> read a value.\<close>

fun truthy :: "reqval \<Rightarrow> bool" where
  "truthy RAbsent = False"
| "truthy RNull = False"
| "truthy (RBool b) = b"
| "truthy (RNum x s) = (x \<noteq> 0)"
| "truthy (RStr s) = (s \<noteq> [])"

definition js_or :: "reqval \<Rightarrow> reqval \<Rightarrow> reqval" where
  "js_or a b = (if truthy a then a else b)"

text \<open>The conversion to a string that \<^verbatim>\<open>parseInt\<close> applies to its argument.\<close>

fun ToString :: "reqval \<Rightarrow> string" where
  "ToString RAbsent = ''undefined''"
| "ToString RNull = ''null''"
| "ToString (RBool b) = (if b then ''true'' else ''false'')"
| "ToString (RNum x s) = s"
| "ToString (RStr s) = s"

subsection \<open>parseInt\<close>

text \<open>
  \<^verbatim>\<open>parseInt(string)\<close> with no radix: leading white space is skipped, one sign is read,
  a \<^verbatim>\<open>0x\<close>/\<^verbatim>\<open>0X\<close> prefix selects radix 16 (radix 10 otherwise), and the longest run of
  digits of that radix is the value; the rest of the string is ignored. With no digit the
  result is NaN. Characters are the code units below 256.
\<close>

definition is_space :: "char \<Rightarrow> bool" where
  "is_space c = (of_char c \<in> {9, 10, 11, 12, 13, 32, 160 :: nat})"

definition digit_val :: "char \<Rightarrow> nat option" where
  "digit_val c =
     (let n = (of_char c :: nat)
      in if 48 \<le> n \<and> n \<le> 57 then Some (n - 48)
         else if 97 \<le> n \<and> n \<le> 122 then Some (n - 87)
         else if 65 \<le> n \<and> n \<le> 90 then Some (n - 55)
         else None)"

definition is_digit :: "nat \<Rightarrow> char \<Rightarrow> bool" where
  "is_digit R c = (case digit_val c of None \<Rightarrow> False | Some d \<Rightarrow> d < R)"

definition digits_value :: "nat \<Rightarrow> string \<Rightarrow> nat" where
  "digits_value R ds =
     foldl (\<lambda>acc c. acc * R + (case digit_val c of None \<Rightarrow> 0 | Some d \<Rightarrow> d)) 0 ds"

definition strip_sign :: "string \<Rightarrow> bool \<times> string" where
  "strip_sign s =
     (case s of
        [] \<Rightarrow> (False, [])
      | c # r \<Rightarrow> if c = CHR ''-'' then (True, r)
                 else if c = CHR ''+'' then (False, r)
                 else (False, s))"

definition strip_prefix :: "string \<Rightarrow> nat \<times> string" where
  "strip_prefix s =
     (case s of
        a # b # r \<Rightarrow> if a = CHR ''0'' \<and> (b = CHR ''x'' \<or> b = CHR ''X'') then (16, r)
                     else (10, s)
      | _ \<Rightarrow> (10, s))"

text \<open>
  The result of \<^verbatim>\<open>parseInt\<close> is a double: the integer that the digits denote, rounded to
  the nearest double (a tie to the even significand), \<^verbatim>\<open>Infinity\<close> beyond the largest
  double. Every integer up to \<open>2\<^sup>5\<^sup>3\<close> is a double. \<open>bitlen n\<close> is the number of binary
  digits of \<open>n\<close>. (For radix 10 an implementation may replace the digits after the 20th
  by zeros before it rounds; nothing below depends on more than 16 digits.)
\<close>

fun bitlen :: "nat \<Rightarrow> nat" where
  "bitlen n = (if n = 0 then 0 else Suc (bitlen (n div 2)))"

definition double_of_nat :: "nat \<Rightarrow> jsnum" where
  "double_of_nat n =
     (if n \<le> 2 ^ 53 then Fin (real n)
      else let e = bitlen n - 53;
               q = n div 2 ^ e;
               r = n mod 2 ^ e;
               half = 2 ^ (e - 1);
               q' = (if half < r \<or> (r = half \<and> odd q) then q + 1 else q)
           in if 2 ^ 1024 \<le> q' * 2 ^ e then PInf else Fin (real (q' * 2 ^ e)))"

fun js_neg :: "jsnum \<Rightarrow> jsnum" where
  "js_neg (Fin r) = Fin (- r)"
| "js_neg PInf = NInf"
| "js_neg NInf = PInf"
| "js_neg NaN = NaN"

definition parseInt_str :: "string \<Rightarrow> jsnum" where
  "parseInt_str s =
     (let (neg, s2) = strip_sign (dropWhile is_space s);
          (R, s3) = strip_prefix s2;
          ds = takeWhile (is_digit R) s3
      in if ds = [] then NaN
         else if neg then js_neg (double_of_nat (digits_value R ds))
         else double_of_nat (digits_value R ds))"

text \<open>\<^verbatim>\<open>parseInt(v)\<close>: the argument is converted to a string, which is then read.\<close>

fun parseInt :: "reqval \<Rightarrow> jsnum" where
  "parseInt v = parseInt_str (ToString v)"

section \<open>The store\<close>

text \<open>
  The three SQLite tables. A column holds \<open>None\<close> for SQL NULL. The \<^verbatim>\<open>INTEGER\<close> columns
  only ever receive integers or NULL from this program, and all of them stay far below
  \<open>2\<^sup>5\<^sup>3\<close>, where the doubles that JavaScript reads back are exact; they are modelled
  by \<^typ>\<open>int\<close>.
\<close>

record room_row =
  code :: string
  startRadius :: "int option"
  shrinkStepSec :: "int option"
  shrinkAmount :: "int option"
  startedAt :: "int option"

record player_row =
  p_id :: string
  p_room :: string
  p_name :: string
  p_role :: string
  p_status :: "string option"
  p_lastSeen :: "int option"

record location_row =
  l_playerId :: string
  l_lat :: "real option"
  l_lng :: "real option"
  l_ts :: "int option"

text \<open>
  The database: the rows of each table in insertion order, and \<open>status_log\<close>, the list of
  the \<^verbatim>\<open>UPDATE players SET status = ? WHERE id = ?\<close> statements run so far (status, id),
  oldest first.
\<close>

record db =
  rooms :: "room_row list"
  players :: "player_row list"
  locations :: "location_row list"
  status_log :: "(string \<times> string) list"

datatype http_error = HttpError nat string

section \<open>Utilities\<close>

text \<open>\<^verbatim>\<open>const clamp = (v,min,max) => Math.max(min, Math.min(max, v));\<close>\<close>

definition clamp :: "jsnum \<Rightarrow> jsnum \<Rightarrow> jsnum \<Rightarrow> jsnum" where
  "clamp v mn mx = Math_max mn (Math_min mx v)"

text \<open>
  Binding a number to an \<^verbatim>\<open>INTEGER\<close> column: SQLite stores NaN as NULL and an
  integer-valued double as that integer. (An infinity or a fraction would be kept as a
  REAL; \<open>clamp\<close> between integer bounds of what \<open>parseInt\<close> returns never yields one.)
\<close>

fun sql_integer :: "jsnum \<Rightarrow> int option" where
  "sql_integer (Fin r) = Some \<lfloor>r\<rfloor>"
| "sql_integer _ = None"

text \<open>
  \<^verbatim>\<open>String.prototype.toUpperCase\<close> for ASCII text: the letters \<open>a\<close> to \<open>z\<close> are raised,
  every other character is kept (room codes are made of digits and \<open>A\<close> to \<open>Z\<close>).
\<close>

definition toUpperCase :: "string \<Rightarrow> string" where
  "toUpperCase s =
     map (\<lambda>c. case map_of (zip ''abcdefghijklmnopqrstuvwxyz''
                                  ''ABCDEFGHIJKLMNOPQRSTUVWXYZ'') c of
                 None \<Rightarrow> c
               | Some u \<Rightarrow> u) s"

section \<open>Room endpoints\<close>

text \<open>The JSON body of \<^verbatim>\<open>POST /rooms\<close>.\<close>

record rooms_body =
  b_startRadius :: reqval
  b_shrinkStepSec :: reqval
  b_shrinkAmount :: reqval

text \<open>The three values the handler computes, binds to the INSERT and echoes.\<close>

definition room_config :: "rooms_body \<Rightarrow> jsnum \<times> jsnum \<times> jsnum" where
  "room_config body =
     (let startRadius = clamp (parseInt (js_or (b_startRadius body) (RNum 800 ''800'')))
                          (Fin 20) (Fin 100000);
          shrinkStepSec = clamp (parseInt (js_or (b_shrinkStepSec body) (RNum 20 ''20'')))
                            (Fin 1) (Fin 86400);
          shrinkAmount = clamp (parseInt (js_or (b_shrinkAmount body) (RNum 50 ''50'')))
                           (Fin 1) (Fin 100000)
      in (startRadius, shrinkStepSec, shrinkAmount))"

definition getRoom :: "db \<Rightarrow> string \<Rightarrow> room_row option" where
  "getRoom d c = find (\<lambda>r. code r = c) (rooms d)"

text \<open>
  \<^verbatim>\<open>POST /rooms\<close>. The room code \<open>uid\<close> comes from \<^verbatim>\<open>Math.random\<close> and is a parameter. The
  INSERT fails on a code already present (primary key), which the framework answers
  with status 500.
\<close>

definition post_rooms ::
  "db \<Rightarrow> string \<Rightarrow> rooms_body \<Rightarrow> (http_error + string \<times> jsnum \<times> jsnum \<times> jsnum) \<times> db" where
  "post_rooms d uid body =
     (let (startRadius, shrinkStepSec, shrinkAmount) = room_config body
      in if getRoom d uid \<noteq> None then (Inl (HttpError 500 ''SqliteError''), d)
         else (Inr (uid, startRadius, shrinkStepSec, shrinkAmount),
               d\<lparr>rooms := rooms d @
                    [\<lparr>code = uid, startRadius = sql_integer startRadius,
                      shrinkStepSec = sql_integer shrinkStepSec,
                      shrinkAmount = sql_integer shrinkAmount, startedAt = None\<rparr>]\<rparr>))"

text \<open>\<^verbatim>\<open>POST /rooms/:code/start\<close>; \<open>nowTs\<close> is \<^verbatim>\<open>Date.now()\<close>.\<close>

definition post_start :: "db \<Rightarrow> int \<Rightarrow> string \<Rightarrow> (http_error + int) \<times> db" where
  "post_start d nowTs code_param =
     (let c = toUpperCase code_param
      in if getRoom d c = None then (Inl (HttpError 404 ''room not found''), d)
         else (Inr nowTs,
               d\<lparr>rooms := map (\<lambda>r. if code r = c then r\<lparr>startedAt := Some nowTs\<rparr> else r)
                              (rooms d)\<rparr>))"

section \<open>Zone radius\<close>

text \<open>\<open>x || dflt\<close> on a nullable integer column: NULL and 0 are falsy.\<close>

definition int_or :: "int option \<Rightarrow> int \<Rightarrow> int" where
  "int_or x dflt = (case x of None \<Rightarrow> dflt | Some n \<Rightarrow> if n = 0 then dflt else n)"

text \<open>The numeric reading of a nullable integer column: NULL counts as 0.\<close>

definition to_number :: "int option \<Rightarrow> int" where
  "to_number x = (case x of None \<Rightarrow> 0 | Some n \<Rightarrow> n)"

text \<open>
  Lines 154 to 159 of the state handler. \<^verbatim>\<open>Math.floor\<close> of the quotient of two integers
  is \<open>div\<close> (which rounds down), the divisor being at least 1000.
\<close>

definition zoneRadius :: "room_row \<Rightarrow> int \<Rightarrow> int" where
  "zoneRadius roomRow nowTs =
     (let zr = int_or (startRadius roomRow) 800
      in if int_or (startedAt roomRow) 0 \<noteq> 0
         then let elapsedMs = nowTs - to_number (startedAt roomRow);
                  steps = elapsedMs div (max 1 (to_number (shrinkStepSec roomRow)) * 1000)
              in max 20 (zr - steps * int_or (shrinkAmount roomRow) 50)
         else zr)"

section \<open>Player endpoints\<close>

text \<open>
  \<^verbatim>\<open>POST /join\<close>. The body's fields are strings when present (\<open>None\<close>: absent). \<open>uuid\<close> is
  the fresh \<^verbatim>\<open>uuidv4()\<close> and \<open>ts\<close> is \<^verbatim>\<open>Date.now()\<close>. The INSERT leaves \<open>status\<close> to its
  column default \<^verbatim>\<open>'ready'\<close>.
\<close>

record join_body =
  j_room :: "string option"
  j_name :: "string option"
  j_role :: "string option"

definition str_or :: "string option \<Rightarrow> string \<Rightarrow> string" where
  "str_or x dflt = (case x of None \<Rightarrow> dflt | Some s \<Rightarrow> if s = [] then dflt else s)"

definition post_join ::
  "db \<Rightarrow> string \<Rightarrow> int \<Rightarrow> join_body \<Rightarrow> (http_error + string \<times> string \<times> string \<times> string) \<times> db"
  where
  "post_join d uuid ts body =
     (let room = toUpperCase (str_or (j_room body) []);
          name = take 40 (str_or (j_name body) ''Player'');
          role = (if j_role body = Some ''runner'' then ''runner'' else ''hunter'')
      in if room = [] then (Inl (HttpError 400 ''room required''), d)
         else if getRoom d room = None then (Inl (HttpError 404 ''room not found''), d)
         else if \<exists>p \<in> set (players d). p_id p = uuid
         then (Inl (HttpError 500 ''SqliteError''), d)
         else (Inr (uuid, name, role, room),
               d\<lparr>players := players d @
                    [\<lparr>p_id = uuid, p_room = room, p_name = name, p_role = role,
                      p_status = Some ''ready'', p_lastSeen = Some ts\<rparr>]\<rparr>))"

text \<open>
  \<^verbatim>\<open>POST /location\<close>. A coordinate of the body is absent, \<^verbatim>\<open>null\<close> or a JSON number. The
  global \<^verbatim>\<open>isFinite\<close> converts its argument to a number first: \<^verbatim>\<open>undefined\<close> becomes NaN,
  \<^verbatim>\<open>null\<close> becomes 0.
\<close>

datatype coord = CAbsent | CNull | CNumber real

fun coord_number :: "coord \<Rightarrow> jsnum" where
  "coord_number CAbsent = NaN"
| "coord_number CNull = Fin 0"
| "coord_number (CNumber r) = Fin r"

definition isFinite :: "coord \<Rightarrow> bool" where
  "isFinite v = (case coord_number v of Fin _ \<Rightarrow> True | _ \<Rightarrow> False)"

text \<open>What the REAL column receives: \<^verbatim>\<open>null\<close> binds as SQL NULL.\<close>

fun sql_real :: "coord \<Rightarrow> real option" where
  "sql_real (CNumber r) = Some r"
| "sql_real _ = None"

record location_body =
  playerId :: "string option"
  lat :: coord
  lng :: coord

definition upsert_location :: "location_row \<Rightarrow> location_row list \<Rightarrow> location_row list" where
  "upsert_location new ls =
     (if \<exists>l \<in> set ls. l_playerId l = l_playerId new
      then map (\<lambda>l. if l_playerId l = l_playerId new then new else l) ls
      else ls @ [new])"

definition post_location :: "db \<Rightarrow> int \<Rightarrow> location_body \<Rightarrow> (http_error + int) \<times> db" where
  "post_location d ts body =
     (if str_or (playerId body) [] = [] \<or> \<not> isFinite (lat body) \<or> \<not> isFinite (lng body)
      then (Inl (HttpError 400 ''missing fields''), d)
      else let pid = str_or (playerId body) []
           in if \<not> (\<exists>p \<in> set (players d). p_id p = pid)
              then (Inl (HttpError 404 ''player not found''), d)
              else (Inr ts,
                    d\<lparr>locations := upsert_location
                         \<lparr>l_playerId = pid, l_lat = sql_real (lat body),
                          l_lng = sql_real (lng body), l_ts = Some ts\<rparr> (locations d),
                      players := map (\<lambda>p. if p_id p = pid then p\<lparr>p_lastSeen := Some ts\<rparr> else p)
                                   (players d)\<rparr>))"

section \<open>Distance\<close>

text \<open>
  \<^verbatim>\<open>distMeters\<close>, lines 61 to 74. Line 62 returns \<^verbatim>\<open>Infinity\<close> when one of the four
  arguments is \<^verbatim>\<open>null\<close> or \<^verbatim>\<open>undefined\<close>. Lines 63 to 73 are double-precision
  trigonometry; they are the parameter \<open>hv\<close>, a function of the four numbers, so that
  what is proved holds for the machine arithmetic, whatever it rounds to.
\<close>

definition distMeters ::
  "(real \<Rightarrow> real \<Rightarrow> real \<Rightarrow> real \<Rightarrow> jsnum) \<Rightarrow>
   real option \<Rightarrow> real option \<Rightarrow> real option \<Rightarrow> real option \<Rightarrow> jsnum" where
  "distMeters hv aLat aLng bLat bLng =
     (case (aLat, aLng, bLat, bLng) of
        (Some a1, Some a2, Some b1, Some b2) \<Rightarrow> hv a1 a2 b1 b2
      | _ \<Rightarrow> PInf)"

text \<open>
  Lines 63 to 73 read over the real numbers: the haversine formula. \<open>hav_A\<close> is the
  quantity \<^verbatim>\<open>A\<close> of lines 65 to 71, and \<open>dist_of_A\<close> is lines 72 and 73 applied to it:
  \<^verbatim>\<open>Math.sqrt\<close> of a negative number is NaN, and NaN propagates through \<^verbatim>\<open>Math.atan2\<close>
  and the product. Over the reals \<open>A\<close> lies between 0 and 1 and the distance is always a
  number (\<open>haversine_finite\<close> below). In double arithmetic the sum of line 71 can come out
  above 1 by a rounding error, for two points that are antipodal or almost so, and then
  line 72 gives NaN. The instance \<open>haversine\<close> of \<open>hv\<close> is used for sample requests at points
  where both readings agree.
\<close>

definition atan2 :: "real \<Rightarrow> real \<Rightarrow> real" where
  "atan2 y x =
     (if 0 < x then arctan (y / x)
      else if x < 0 then (if 0 \<le> y then arctan (y / x) + pi else arctan (y / x) - pi)
      else if 0 < y then pi / 2
      else if y < 0 then - (pi / 2)
      else 0)"

definition toRad :: "real \<Rightarrow> real" where
  "toRad deg = deg * pi / 180"

definition hav_A :: "real \<Rightarrow> real \<Rightarrow> real \<Rightarrow> real \<Rightarrow> real" where
  "hav_A aLat aLng bLat bLng =
     (let dLat = toRad (bLat - aLat);
          dLon = toRad (bLng - aLng);
          lat1 = toRad aLat;
          lat2 = toRad bLat;
          sinDlat = sin (dLat / 2);
          sinDlon = sin (dLon / 2)
      in sinDlat * sinDlat + cos lat1 * cos lat2 * sinDlon * sinDlon)"

definition dist_of_A :: "real \<Rightarrow> jsnum" where
  "dist_of_A A =
     (let R = 6371000
      in if A < 0 \<or> 1 - A < 0 then NaN
         else Fin (R * (2 * atan2 (sqrt A) (sqrt (1 - A)))))"

definition haversine :: "real \<Rightarrow> real \<Rightarrow> real \<Rightarrow> real \<Rightarrow> jsnum" where
  "haversine aLat aLng bLat bLng = dist_of_A (hav_A aLat aLng bLat bLng)"

section \<open>The state request\<close>

subsection \<open>Snapshot\<close>

text \<open>
  A row of the \<^verbatim>\<open>LEFT JOIN\<close> of players with locations. The query has no
  \<^verbatim>\<open>ORDER BY\<close>; the rows are taken in the order of the players table.
\<close>

record snapshot_row =
  r_id :: string
  r_name :: string
  r_role :: string
  r_status :: "string option"
  r_lastSeen :: "int option"
  r_lat :: "real option"
  r_lng :: "real option"
  r_ts :: "int option"

definition join_row :: "player_row \<Rightarrow> location_row option \<Rightarrow> snapshot_row" where
  "join_row p l =
     \<lparr>r_id = p_id p, r_name = p_name p, r_role = p_role p, r_status = p_status p,
      r_lastSeen = p_lastSeen p,
      r_lat = (case l of None \<Rightarrow> None | Some x \<Rightarrow> l_lat x),
      r_lng = (case l of None \<Rightarrow> None | Some x \<Rightarrow> l_lng x),
      r_ts = (case l of None \<Rightarrow> None | Some x \<Rightarrow> l_ts x)\<rparr>"

definition playerRows :: "db \<Rightarrow> string \<Rightarrow> snapshot_row list" where
  "playerRows d room =
     concat (map (\<lambda>p. case filter (\<lambda>l. l_playerId l = p_id p) (locations d) of
                         [] \<Rightarrow> [join_row p None]
                       | ls \<Rightarrow> map (\<lambda>l. join_row p (Some l)) ls)
                 (filter (\<lambda>p. p_room p = room) (players d)))"

subsection \<open>The players object\<close>

text \<open>
  The object \<^verbatim>\<open>players\<close> maps an id to the player's record. It is an association list in
  insertion order, which is the order of \<^verbatim>\<open>for ... in\<close> for keys that are not array
  indices (the ids are UUIDs, so none is an index or \<^verbatim>\<open>__proto__\<close>); assigning to a key
  already present replaces its value in place (\<^const>\<open>AList.update\<close>).
\<close>

record player =
  o_id :: string
  o_name :: string
  o_role :: string
  o_status :: string
  o_lastSeen :: "int option"
  o_lat :: "real option"
  o_lng :: "real option"
  o_locTs :: "int option"

type_synonym players_obj = "(string \<times> player) list"

definition int_or_null :: "int option \<Rightarrow> int option" where
  "int_or_null x = (case x of None \<Rightarrow> None | Some n \<Rightarrow> if n = 0 then None else Some n)"

definition mk_player :: "snapshot_row \<Rightarrow> player" where
  "mk_player r =
     \<lparr>o_id = r_id r, o_name = r_name r, o_role = r_role r,
      o_status = str_or (r_status r) ''ready'',
      o_lastSeen = int_or_null (r_lastSeen r),
      o_lat = r_lat r, o_lng = r_lng r,
      o_locTs = int_or_null (r_ts r)\<rparr>"

definition build_players :: "snapshot_row list \<Rightarrow> players_obj" where
  "build_players rows = foldl (\<lambda>ps r. AList.update (r_id r) (mk_player r) ps) [] rows"

subsection \<open>Catch detection\<close>

text \<open>\<^verbatim>\<open>UPDATE players SET status = ? WHERE id = ?\<close>, recorded in the log.\<close>

definition update_status :: "db \<Rightarrow> string \<Rightarrow> string \<Rightarrow> db" where
  "update_status d st pid =
     d\<lparr>players := map (\<lambda>p. if p_id p = pid then p\<lparr>p_status := Some st\<rparr> else p) (players d),
       status_log := status_log d @ [(st, pid)]\<rparr>"

text \<open>
  The body of the inner loop (lines 191 to 200) for the hunter \<open>a\<close> under key \<open>aId\<close> and
  the key \<open>bId\<close>: the state is the players object and the database.
\<close>

definition catch_inner ::
  "(real \<Rightarrow> real \<Rightarrow> real \<Rightarrow> real \<Rightarrow> jsnum) \<Rightarrow> jsnum \<Rightarrow> string \<Rightarrow> player \<Rightarrow> string \<Rightarrow>
   players_obj \<times> db \<Rightarrow> players_obj \<times> db" where
  "catch_inner hv catchMeters aId a bId st =
     (if aId = bId then st
      else case map_of (fst st) bId of
             None \<Rightarrow> st
           | Some b \<Rightarrow>
               if o_role b \<noteq> ''runner'' \<or> o_lat b = None then st
               else let d = distMeters hv (o_lat a) (o_lng a) (o_lat b) (o_lng b)
                    in if js_le d catchMeters
                       then (if o_status b \<noteq> ''caught''
                             then (AList.update bId (b\<lparr>o_status := ''caught''\<rparr>) (fst st),
                                   update_status (snd st) ''caught'' bId)
                             else st)
                       else st)"

text \<open>The body of the outer loop (lines 188 to 201) for the key \<open>aId\<close>.\<close>

definition catch_outer ::
  "(real \<Rightarrow> real \<Rightarrow> real \<Rightarrow> real \<Rightarrow> jsnum) \<Rightarrow> jsnum \<Rightarrow> string list \<Rightarrow> string \<Rightarrow>
   players_obj \<times> db \<Rightarrow> players_obj \<times> db" where
  "catch_outer hv catchMeters keys aId st =
     (case map_of (fst st) aId of
        None \<Rightarrow> st
      | Some a \<Rightarrow>
          if o_role a \<noteq> ''hunter'' \<or> o_lat a = None then st
          else fold (catch_inner hv catchMeters aId a) keys st)"

definition detect_catches ::
  "(real \<Rightarrow> real \<Rightarrow> real \<Rightarrow> real \<Rightarrow> jsnum) \<Rightarrow> jsnum \<Rightarrow> players_obj \<times> db \<Rightarrow> players_obj \<times> db"
  where
  "detect_catches hv catchMeters st =
     (let keys = map fst (fst st) in fold (catch_outer hv catchMeters keys) keys st)"

subsection \<open>The viewer\<close>

text \<open>
  \<^verbatim>\<open>viewerId && players[viewerId] ? players[viewerId] : null\<close>. The object \<^verbatim>\<open>players\<close> is
  a plain object, so a key that is not a player's id but names a property of
  \<^verbatim>\<open>Object.prototype\<close> reads a truthy value that has no \<^verbatim>\<open>id\<close>, \<^verbatim>\<open>role\<close>, \<^verbatim>\<open>lat\<close> or
  \<^verbatim>\<open>lng\<close>: \<open>ProtoViewer\<close>.
\<close>

datatype viewer = NoViewer | PlayerViewer player | ProtoViewer

definition proto_keys :: "string list" where
  "proto_keys =
     [''constructor'', ''__defineGetter__'', ''__defineSetter__'', ''hasOwnProperty'',
      ''__lookupGetter__'', ''__lookupSetter__'', ''isPrototypeOf'',
      ''propertyIsEnumerable'', ''toString'', ''valueOf'', ''__proto__'',
      ''toLocaleString'']"

definition find_viewer :: "players_obj \<Rightarrow> string option \<Rightarrow> viewer" where
  "find_viewer ps viewerId =
     (case viewerId of
        None \<Rightarrow> NoViewer
      | Some k \<Rightarrow>
          if k = [] then NoViewer
          else case map_of ps k of
                 Some p \<Rightarrow> PlayerViewer p
               | None \<Rightarrow> if k \<in> set proto_keys then ProtoViewer else NoViewer)"

fun viewer_id :: "viewer \<Rightarrow> string option" where
  "viewer_id (PlayerViewer v) = Some (o_id v)"
| "viewer_id _ = None"

fun viewer_role :: "viewer \<Rightarrow> string option" where
  "viewer_role (PlayerViewer v) = Some (o_role v)"
| "viewer_role _ = None"

fun viewer_lat :: "viewer \<Rightarrow> real option" where
  "viewer_lat (PlayerViewer v) = o_lat v"
| "viewer_lat _ = None"

fun viewer_lng :: "viewer \<Rightarrow> real option" where
  "viewer_lng (PlayerViewer v) = o_lng v"
| "viewer_lng _ = None"

subsection \<open>Projection\<close>

text \<open>
  An emitted view is an object literal: the list of its fields with their values, in
  the order written.
\<close>

type_synonym view = "(string \<times> jsval) list"

definition real_val :: "real option \<Rightarrow> jsval" where
  "real_val x = (case x of None \<Rightarrow> JNull | Some r \<Rightarrow> JNum (Fin r))"

definition int_val :: "int option \<Rightarrow> jsval" where
  "int_val x = (case x of None \<Rightarrow> JNull | Some n \<Rightarrow> JNum (Fin (of_int n)))"

text \<open>
  \<^verbatim>\<open>(p.lat!=null && viewer.lat!=null) ? Math.round(distMeters(viewer.lat, viewer.lng,
  p.lat, p.lng)) : null\<close>, the value of \<^verbatim>\<open>distanceToViewer\<close> and of \<^verbatim>\<open>distanceToRunner\<close>.
\<close>

definition rounded_distance ::
  "(real \<Rightarrow> real \<Rightarrow> real \<Rightarrow> real \<Rightarrow> jsnum) \<Rightarrow> viewer \<Rightarrow> player \<Rightarrow> jsval" where
  "rounded_distance hv v p =
     (if o_lat p \<noteq> None \<and> viewer_lat v \<noteq> None
      then JNum (Math_round (distMeters hv (viewer_lat v) (viewer_lng v) (o_lat p) (o_lng p)))
      else JNull)"

text \<open>
  Lines 209 to 222 store on each player \<open>p\<close> (under key \<open>k\<close>) its nearest located
  opponent as \<^verbatim>\<open>_nearestOpp\<close>: the id and the distance, \<^verbatim>\<open>{id: null, dist: Infinity}\<close> when
  there is none. No pushed object reads it (the \<^verbatim>\<open>const d\<close> of line 250 is not used),
  so the projection below does not depend on it.
\<close>

definition nearestOpp ::
  "(real \<Rightarrow> real \<Rightarrow> real \<Rightarrow> real \<Rightarrow> jsnum) \<Rightarrow> players_obj \<Rightarrow> string \<Rightarrow> player \<Rightarrow>
   string option \<times> jsnum" where
  "nearestOpp hv ps k p =
     fold (\<lambda>e acc.
             if k = fst e then acc
             else if o_lat (snd e) = None \<or> o_lng (snd e) = None then acc
             else if o_role p = o_role (snd e) then acc
             else let d = distMeters hv (o_lat p) (o_lng p) (o_lat (snd e)) (o_lng (snd e))
                  in if js_lt d (snd acc) then (Some (o_id (snd e)), d) else acc)
          ps (None, PInf)"

text \<open>The body of the last loop (lines 225 to 263): the object pushed for player \<open>p\<close>.\<close>

definition view_of ::
  "(real \<Rightarrow> real \<Rightarrow> real \<Rightarrow> real \<Rightarrow> jsnum) \<Rightarrow> viewer \<Rightarrow> player \<Rightarrow> view" where
  "view_of hv v p =
     (if v = NoViewer
      then [(''id'', JStr (o_id p)), (''name'', JStr (o_name p)), (''role'', JStr (o_role p)),
            (''status'', JStr (o_status p))]
      else if viewer_role v = Some ''hunter''
      then [(''id'', JStr (o_id p)), (''name'', JStr (o_name p)), (''role'', JStr (o_role p)),
            (''status'', JStr (o_status p)), (''lat'', real_val (o_lat p)),
            (''lng'', real_val (o_lng p)), (''lastSeen'', int_val (o_lastSeen p)),
            (''distanceToViewer'', rounded_distance hv v p)]
      else if Some (o_id p) = viewer_id v
      then [(''id'', JStr (o_id p)), (''name'', JStr (o_name p)), (''role'', JStr (o_role p)),
            (''status'', JStr (o_status p)), (''lat'', real_val (o_lat p)),
            (''lng'', real_val (o_lng p)), (''lastSeen'', int_val (o_lastSeen p))]
      else if o_role p = ''hunter''
      then [(''id'', JStr (o_id p)), (''name'', JStr (o_name p)), (''role'', JStr (o_role p)),
            (''status'', JStr (o_status p)),
            (''distanceToRunner'', rounded_distance hv v p),
            (''lastSeen'', int_val (o_lastSeen p))]
      else [(''id'', JStr (o_id p)), (''name'', JStr (o_name p)), (''role'', JStr (o_role p)),
            (''status'', JStr (o_status p)), (''lastSeen'', int_val (o_lastSeen p))])"

text \<open>
  \<^verbatim>\<open>res.json\<close> sends the objects through \<^verbatim>\<open>JSON.stringify\<close>, which writes NaN and the
  infinities as \<^verbatim>\<open>null\<close> and drops a field whose value is \<^verbatim>\<open>undefined\<close>.
\<close>

fun json_val :: "jsval \<Rightarrow> jsval" where
  "json_val (JNum (Fin r)) = JNum (Fin r)"
| "json_val (JNum _) = JNull"
| "json_val x = x"

definition json_view :: "view \<Rightarrow> view" where
  "json_view v = map (\<lambda>(k, x). (k, json_val x)) (filter (\<lambda>(k, x). x \<noteq> JUndefined) v)"

subsection \<open>The handler\<close>

record state_response =
  s_code :: string
  s_startRadius :: "int option"
  s_shrinkStepSec :: "int option"
  s_shrinkAmount :: "int option"
  s_startedAt :: "int option"
  s_zoneRadius :: int
  s_players :: "view list"
  s_now :: int

text \<open>\<^verbatim>\<open>parseInt(req.query.catchMeters || '30')\<close>; the query parameter is a string or absent.\<close>

definition catchMeters_of :: "string option \<Rightarrow> jsnum" where
  "catchMeters_of q =
     parseInt (js_or (case q of None \<Rightarrow> RAbsent | Some s \<Rightarrow> RStr s) (RStr ''30''))"

text \<open>
  \<^verbatim>\<open>GET /state/:room\<close>. \<open>nowTs\<close> and \<open>sendTs\<close> are the two readings of \<^verbatim>\<open>Date.now()\<close>
  (lines 156 and 277); \<open>room_param\<close> is the path segment, \<open>playerId_q\<close> and
  \<open>catchMeters_q\<close> the query parameters.
\<close>

definition get_state ::
  "(real \<Rightarrow> real \<Rightarrow> real \<Rightarrow> real \<Rightarrow> jsnum) \<Rightarrow> db \<Rightarrow> int \<Rightarrow> int \<Rightarrow> string \<Rightarrow> string option \<Rightarrow>
   string option \<Rightarrow> (http_error + state_response) \<times> db" where
  "get_state hv d nowTs sendTs room_param playerId_q catchMeters_q =
     (let room = toUpperCase room_param
      in case getRoom d room of
           None \<Rightarrow> (Inl (HttpError 404 ''room not found''), d)
         | Some roomRow \<Rightarrow>
             let zr = zoneRadius roomRow nowTs;
                 rows = playerRows d room;
                 catchMeters = catchMeters_of catchMeters_q;
                 st = detect_catches hv catchMeters (build_players rows, d);
                 v = find_viewer (fst st) playerId_q;
                 sendPlayers = map (\<lambda>(k, p). view_of hv v p) (fst st)
             in (Inr \<lparr>s_code = code roomRow, s_startRadius = startRadius roomRow,
                      s_shrinkStepSec = shrinkStepSec roomRow,
                      s_shrinkAmount = shrinkAmount roomRow,
                      s_startedAt = startedAt roomRow, s_zoneRadius = zr,
                      s_players = map json_view sendPlayers, s_now = sendTs\<rparr>,
                 snd st))"

section \<open>Stored configurations and sample data\<close>

text \<open>
  What \<^verbatim>\<open>POST /rooms\<close> can leave in a configuration column: NULL, or an integer of the
  column's range.
\<close>

definition in_range :: "int option \<Rightarrow> int \<Rightarrow> int \<Rightarrow> bool" where
  "in_range x lo hi = (case x of None \<Rightarrow> True | Some n \<Rightarrow> lo \<le> n \<and> n \<le> hi)"

definition config_ok :: "room_row \<Rightarrow> bool" where
  "config_ok r =
     (in_range (startRadius r) 20 100000 \<and> in_range (shrinkStepSec r) 1 86400 \<and>
      in_range (shrinkAmount r) 1 100000)"

definition empty_db :: db where
  "empty_db = \<lparr>rooms = [], players = [], locations = [], status_log = []\<rparr>"

text \<open>A creation request whose \<^verbatim>\<open>startRadius\<close> is the string \<^verbatim>\<open>"abc"\<close>.\<close>

definition bad_body :: rooms_body where
  "bad_body =
     \<lparr>b_startRadius = RStr ''abc'', b_shrinkStepSec = RAbsent, b_shrinkAmount = RAbsent\<rparr>"

text \<open>A room started at time 1000 with the default configuration.\<close>

definition demo_room :: room_row where
  "demo_room =
     \<lparr>code = ''ROOM01'', startRadius = Some 800, shrinkStepSec = Some 20,
      shrinkAmount = Some 50, startedAt = Some 1000\<rparr>"

text \<open>The database after the request \<open>bad_body\<close> on an empty store.\<close>

definition bad_db :: db where
  "bad_db =
     \<lparr>rooms = [\<lparr>code = ''K3J9QA'', startRadius = None, shrinkStepSec = Some 20,
                shrinkAmount = Some 50, startedAt = None\<rparr>],
      players = [], locations = [], status_log = []\<rparr>"

definition room_db :: db where
  "room_db = empty_db\<lparr>rooms := [demo_room]\<rparr>"

text \<open>The decimal digits of a natural number, as a client writes an integer.\<close>

definition digit_char :: "nat \<Rightarrow> char" where
  "digit_char d = ''0123456789'' ! (d mod 10)"

fun show_nat :: "nat \<Rightarrow> string" where
  "show_nat n =
     (if n < 10 then [digit_char n] else show_nat (n div 10) @ [digit_char (n mod 10)])"

text \<open>
  Sample players: two hunters and a runner at the point (0, 0), a hunter with no
  location, and a runner at (0, 180), half the equator away.
\<close>

definition hunter1 :: player where
  "hunter1 =
     \<lparr>o_id = ''h1'', o_name = ''Hana'', o_role = ''hunter'', o_status = ''ready'',
      o_lastSeen = Some 1500, o_lat = Some 0, o_lng = Some 0, o_locTs = Some 1500\<rparr>"

definition hunter2 :: player where
  "hunter2 =
     \<lparr>o_id = ''h2'', o_name = ''Hugo'', o_role = ''hunter'', o_status = ''ready'',
      o_lastSeen = Some 1600, o_lat = Some 0, o_lng = Some 0, o_locTs = Some 1600\<rparr>"

definition hunter3 :: player where
  "hunter3 =
     \<lparr>o_id = ''h3'', o_name = ''Hedy'', o_role = ''hunter'', o_status = ''ready'',
      o_lastSeen = Some 1650, o_lat = None, o_lng = None, o_locTs = None\<rparr>"

definition runner1 :: player where
  "runner1 =
     \<lparr>o_id = ''r1'', o_name = ''Rio'', o_role = ''runner'', o_status = ''ready'',
      o_lastSeen = Some 1700, o_lat = Some 0, o_lng = Some 0, o_locTs = Some 1700\<rparr>"

definition runner2 :: player where
  "runner2 =
     \<lparr>o_id = ''r2'', o_name = ''Rae'', o_role = ''runner'', o_status = ''ready'',
      o_lastSeen = Some 1800, o_lat = Some 0, o_lng = Some 180, o_locTs = Some 1800\<rparr>"

text \<open>A runner whose location row has a latitude and a null longitude.\<close>

definition runner3 :: player where
  "runner3 =
     \<lparr>o_id = ''r3'', o_name = ''Ria'', o_role = ''runner'', o_status = ''ready'',
      o_lastSeen = Some 1900, o_lat = Some 0, o_lng = None, o_locTs = Some 1900\<rparr>"

text \<open>Two hunters on the spot of one runner.\<close>

definition duo_ps :: players_obj where
  "duo_ps = [(''h1'', hunter1), (''h2'', hunter2), (''r1'', runner1)]"

text \<open>The started room with \<open>h1\<close>, \<open>h3\<close>, \<open>r1\<close> and \<open>r2\<close> in it.\<close>

definition demo_db :: db where
  "demo_db =
     \<lparr>rooms = [demo_room],
      players =
        [\<lparr>p_id = ''h1'', p_room = ''ROOM01'', p_name = ''Hana'', p_role = ''hunter'',
          p_status = Some ''ready'', p_lastSeen = Some 1500\<rparr>,
         \<lparr>p_id = ''h3'', p_room = ''ROOM01'', p_name = ''Hedy'', p_role = ''hunter'',
          p_status = Some ''ready'', p_lastSeen = Some 1650\<rparr>,
         \<lparr>p_id = ''r1'', p_room = ''ROOM01'', p_name = ''Rio'', p_role = ''runner'',
          p_status = Some ''ready'', p_lastSeen = Some 1700\<rparr>,
         \<lparr>p_id = ''r2'', p_room = ''ROOM01'', p_name = ''Rae'', p_role = ''runner'',
          p_status = Some ''ready'', p_lastSeen = Some 1800\<rparr>],
      locations =
        [\<lparr>l_playerId = ''h1'', l_lat = Some 0, l_lng = Some 0, l_ts = Some 1500\<rparr>,
         \<lparr>l_playerId = ''r1'', l_lat = Some 0, l_lng = Some 0, l_ts = Some 1700\<rparr>,
         \<lparr>l_playerId = ''r2'', l_lat = Some 0, l_lng = Some 180, l_ts = Some 1800\<rparr>],
      status_log = []\<rparr>"

text \<open>\<open>demo_db\<close> after the runner \<open>r1\<close> has been caught.\<close>

definition demo_db' :: db where
  "demo_db' = update_status demo_db ''caught'' ''r1''"

text \<open>The responses to a state request on \<open>demo_db\<close>: anonymous, and as the runner \<open>r1\<close>.\<close>

definition demo_anon_response :: state_response where
  "demo_anon_response =
     \<lparr>s_code = ''ROOM01'', s_startRadius = Some 800, s_shrinkStepSec = Some 20,
     s_shrinkAmount = Some 50, s_startedAt = Some 1000, s_zoneRadius = 700,
     s_players =
       [[(''id'', JStr ''h1''), (''name'', JStr ''Hana''), (''role'', JStr ''hunter''),
         (''status'', JStr ''ready'')],
        [(''id'', JStr ''h3''), (''name'', JStr ''Hedy''), (''role'', JStr ''hunter''),
         (''status'', JStr ''ready'')],
        [(''id'', JStr ''r1''), (''name'', JStr ''Rio''), (''role'', JStr ''runner''),
         (''status'', JStr ''caught'')],
        [(''id'', JStr ''r2''), (''name'', JStr ''Rae''), (''role'', JStr ''runner''),
         (''status'', JStr ''ready'')]],
     s_now = 46001\<rparr>"

definition demo_runner_response :: state_response where
  "demo_runner_response =
     \<lparr>s_code = ''ROOM01'', s_startRadius = Some 800, s_shrinkStepSec = Some 20,
     s_shrinkAmount = Some 50, s_startedAt = Some 1000, s_zoneRadius = 700,
     s_players =
       [[(''id'', JStr ''h1''), (''name'', JStr ''Hana''), (''role'', JStr ''hunter''),
         (''status'', JStr ''ready''), (''distanceToRunner'', JNum (Fin 0)),
         (''lastSeen'', JNum (Fin 1500))],
        [(''id'', JStr ''h3''), (''name'', JStr ''Hedy''), (''role'', JStr ''hunter''),
         (''status'', JStr ''ready''), (''distanceToRunner'', JNull),
         (''lastSeen'', JNum (Fin 1650))],
        [(''id'', JStr ''r1''), (''name'', JStr ''Rio''), (''role'', JStr ''runner''),
         (''status'', JStr ''caught''), (''lat'', JNum (Fin 0)), (''lng'', JNum (Fin 0)),
         (''lastSeen'', JNum (Fin 1700))],
        [(''id'', JStr ''r2''), (''name'', JStr ''Rae''), (''role'', JStr ''runner''),
         (''status'', JStr ''ready''), (''lastSeen'', JNum (Fin 1800))]],
     s_now = 46001\<rparr>"

text \<open>The room with one runner joined, and after a location update with a null \<open>lng\<close>.\<close>

definition joined_db :: db where
  "joined_db =
     \<lparr>rooms = [demo_room],
      players = [\<lparr>p_id = ''p1'', p_room = ''ROOM01'', p_name = ''Ann'', p_role = ''runner'',
                  p_status = Some ''ready'', p_lastSeen = Some 2000\<rparr>],
      locations = [], status_log = []\<rparr>"

definition located_db :: db where
  "located_db =
     \<lparr>rooms = [demo_room],
      players = [\<lparr>p_id = ''p1'', p_room = ''ROOM01'', p_name = ''Ann'', p_role = ''runner'',
                  p_status = Some ''ready'', p_lastSeen = Some 3000\<rparr>],
      locations = [\<lparr>l_playerId = ''p1'', l_lat = Some 5, l_lng = None, l_ts = Some 3000\<rparr>],
      status_log = []\<rparr>"

text \<open>
  Two located players at antipodal points: a hunter at (88.39, 116.1) and a runner at
  (-88.39, -63.9), half the circumference (about 20015 km) apart, where the real \<^verbatim>\<open>A\<close>
  is 1. For this pair, in either order, double
  arithmetic gives \<^verbatim>\<open>A = 1.0000000000000002\<close> at line 71, one unit in the last place
  above 1. \<open>haversine_fp\<close> is lines 63 to 73 with that value of \<^verbatim>\<open>A\<close> for the pair and
  the real one elsewhere.
\<close>

definition antipodal_A :: "real \<Rightarrow> real \<Rightarrow> real \<Rightarrow> real \<Rightarrow> real" where
  "antipodal_A aLat aLng bLat bLng =
     (if (aLat, aLng, bLat, bLng) = (- 88.39, - 63.9, 88.39, 116.1) \<or>
         (aLat, aLng, bLat, bLng) = (88.39, 116.1, - 88.39, - 63.9)
      then 1 + 1 / 2 ^ 52
      else hav_A aLat aLng bLat bLng)"

definition haversine_fp :: "real \<Rightarrow> real \<Rightarrow> real \<Rightarrow> real \<Rightarrow> jsnum" where
  "haversine_fp aLat aLng bLat bLng = dist_of_A (antipodal_A aLat aLng bLat bLng)"

definition polar_hunter :: player where
  "polar_hunter =
     \<lparr>o_id = ''h8'', o_name = ''Hilde'', o_role = ''hunter'', o_status = ''ready'',
      o_lastSeen = Some 1500, o_lat = Some 88.39, o_lng = Some 116.1, o_locTs = Some 1500\<rparr>"

definition polar_runner :: player where
  "polar_runner =
     \<lparr>o_id = ''r8'', o_name = ''Rolf'', o_role = ''runner'', o_status = ''ready'',
      o_lastSeen = Some 1700, o_lat = Some (- 88.39), o_lng = Some (- 63.9),
      o_locTs = Some 1700\<rparr>"

definition polar_db :: db where
  "polar_db =
     \<lparr>rooms = [demo_room],
      players =
        [\<lparr>p_id = ''h8'', p_room = ''ROOM01'', p_name = ''Hilde'', p_role = ''hunter'',
          p_status = Some ''ready'', p_lastSeen = Some 1500\<rparr>,
         \<lparr>p_id = ''r8'', p_room = ''ROOM01'', p_name = ''Rolf'', p_role = ''runner'',
          p_status = Some ''ready'', p_lastSeen = Some 1700\<rparr>],
      locations =
        [\<lparr>l_playerId = ''h8'', l_lat = Some 88.39, l_lng = Some 116.1, l_ts = Some 1500\<rparr>,
         \<lparr>l_playerId = ''r8'', l_lat = Some (- 88.39), l_lng = Some (- 63.9),
          l_ts = Some 1700\<rparr>],
      status_log = []\<rparr>"

text \<open>The response to the runner \<open>r8\<close>: the located hunter's distance is \<^verbatim>\<open>null\<close>.\<close>

definition polar_response :: state_response where
  "polar_response =
     \<lparr>s_code = ''ROOM01'', s_startRadius = Some 800, s_shrinkStepSec = Some 20,
      s_shrinkAmount = Some 50, s_startedAt = Some 1000, s_zoneRadius = 700,
      s_players =
        [[(''id'', JStr ''h8''), (''name'', JStr ''Hilde''), (''role'', JStr ''hunter''),
          (''status'', JStr ''ready''), (''distanceToRunner'', JNull),
          (''lastSeen'', JNum (Fin 1500))],
         [(''id'', JStr ''r8''), (''name'', JStr ''Rolf''), (''role'', JStr ''runner''),
          (''status'', JStr ''ready''), (''lat'', JNum (Fin (- 88.39))),
          (''lng'', JNum (Fin (- 63.9))), (''lastSeen'', JNum (Fin 1700))]],
      s_now = 46001\<rparr>"

section \<open>Relating the states of a catch-detection pass\<close>

text \<open>
  \<open>same_but_status p p'\<close>: the player record \<open>p'\<close> is \<open>p\<close>, except that its status may have
  become \<^verbatim>\<open>'caught'\<close>. \<open>obj_evolves ps ps'\<close>: the object \<open>ps'\<close> has the keys of \<open>ps\<close> in
  the same order, each with such a record.
\<close>

definition same_but_status :: "player \<Rightarrow> player \<Rightarrow> bool" where
  "same_but_status p p' \<longleftrightarrow>
     o_id p' = o_id p \<and> o_name p' = o_name p \<and> o_role p' = o_role p \<and>
     o_lastSeen p' = o_lastSeen p \<and> o_lat p' = o_lat p \<and> o_lng p' = o_lng p \<and>
     o_locTs p' = o_locTs p \<and> (o_status p' = o_status p \<or> o_status p' = ''caught'')"

definition obj_evolves :: "players_obj \<Rightarrow> players_obj \<Rightarrow> bool" where
  "obj_evolves ps ps' \<longleftrightarrow>
     list_all2 (\<lambda>e e'. fst e' = fst e \<and> same_but_status (snd e) (snd e')) ps ps'"

text \<open>
  \<open>caught_pair hv cm ps bId\<close>: in the object \<open>ps\<close> some hunter with a known latitude is
  at a distance \<^verbatim>\<open><= cm\<close> from the runner \<open>bId\<close>, whose latitude is known.
\<close>

definition caught_pair ::
  "(real \<Rightarrow> real \<Rightarrow> real \<Rightarrow> real \<Rightarrow> jsnum) \<Rightarrow> jsnum \<Rightarrow> players_obj \<Rightarrow> string \<Rightarrow> bool" where
  "caught_pair hv cm ps bId \<longleftrightarrow>
     (\<exists>aId a b. aId \<noteq> bId \<and> map_of ps aId = Some a \<and> o_role a = ''hunter'' \<and> o_lat a \<noteq> None \<and>
        map_of ps bId = Some b \<and> o_role b = ''runner'' \<and> o_lat b \<noteq> None \<and>
        js_le (distMeters hv (o_lat a) (o_lng a) (o_lat b) (o_lng b)) cm)"

text \<open>The status updates that the database \<open>d\<close> has logged beyond those of \<open>d0\<close>.\<close>

definition new_log :: "db \<Rightarrow> db \<Rightarrow> (string \<times> string) list" where
  "new_log d0 d = drop (length (status_log d0)) (status_log d)"

text \<open>
  The invariant of the outer and the inner loop, relative to the state \<open>(ps0, d0)\<close> at
  their start:
  the object has evolved from \<open>ps0\<close>; rooms and locations are untouched; the log has
  grown by entries that are all \<^verbatim>\<open>'caught'\<close>, name pairwise different runners, each of
  them within range of a hunter, caught in the object and in every row of the players
  table with that id; and a status that differs from the initial one has been logged.
\<close>

definition catch_inv ::
  "(real \<Rightarrow> real \<Rightarrow> real \<Rightarrow> real \<Rightarrow> jsnum) \<Rightarrow> jsnum \<Rightarrow> players_obj \<Rightarrow> db \<Rightarrow> players_obj \<times> db \<Rightarrow> bool"
  where
  "catch_inv hv cm ps0 d0 s \<longleftrightarrow>
     obj_evolves ps0 (fst s) \<and>
     rooms (snd s) = rooms d0 \<and> locations (snd s) = locations d0 \<and>
     status_log (snd s) = status_log d0 @ new_log d0 (snd s) \<and>
     distinct (map snd (new_log d0 (snd s))) \<and>
     (\<forall>e \<in> set (new_log d0 (snd s)).
        fst e = ''caught'' \<and> caught_pair hv cm ps0 (snd e) \<and>
        (\<exists>b. map_of (fst s) (snd e) = Some b \<and> o_status b = ''caught'') \<and>
        (\<forall>row \<in> set (players (snd s)). p_id row = snd e \<longrightarrow> p_status row = Some ''caught'')) \<and>
     (\<forall>k p p'. map_of ps0 k = Some p \<longrightarrow> map_of (fst s) k = Some p' \<longrightarrow>
        o_status p' \<noteq> o_status p \<longrightarrow> k \<in> snd ` set (new_log d0 (snd s)))"

text \<open>The hunter \<open>a\<close> that the outer loop holds for the key \<open>aId\<close>.\<close>

definition hunter_of :: "players_obj \<Rightarrow> string \<Rightarrow> player \<Rightarrow> bool" where
  "hunter_of ps0 aId a \<longleftrightarrow>
     (\<exists>a0. map_of ps0 aId = Some a0 \<and> same_but_status a0 a) \<and> o_role a = ''hunter'' \<and>
     o_lat a \<noteq> None"

text \<open>The players object of a state request: built from the rows of the room.\<close>

definition snapshot :: "db \<Rightarrow> string \<Rightarrow> players_obj" where
  "snapshot d room_param = build_players (playerRows d (toUpperCase room_param))"

definition is_caught :: "players_obj \<Rightarrow> string \<Rightarrow> bool" where
  "is_caught ps k \<longleftrightarrow> (\<exists>b. map_of ps k = Some b \<and> o_status b = ''caught'')"

section \<open>Numbers\<close>


lemma clamp_NaN: "clamp NaN mn mx = NaN"
  by (simp add: clamp_def Math_max_def Math_min_def)

lemma clamp_Fin:
  "lo \<le> hi \<Longrightarrow> clamp (Fin r) (Fin lo) (Fin hi) = Fin (max lo (min hi r))"
  by (simp add: clamp_def Math_max_def Math_min_def max_def min_def)

lemma clamp_PInf: "lo \<le> hi \<Longrightarrow> clamp PInf (Fin lo) (Fin hi) = Fin hi"
  by (simp add: clamp_def Math_max_def Math_min_def)

lemma clamp_NInf: "lo \<le> hi \<Longrightarrow> clamp NInf (Fin lo) (Fin hi) = Fin lo"
  by (simp add: clamp_def Math_max_def Math_min_def)

lemma clamp_range:
  assumes "lo \<le> hi" "v \<noteq> NaN"
  shows "\<exists>r. clamp v (Fin lo) (Fin hi) = Fin r \<and> lo \<le> r \<and> r \<le> hi"
proof (cases v)
  case (Fin x)
  then show ?thesis using assms by (simp add: clamp_Fin)
qed (use assms in \<open>simp_all add: clamp_PInf clamp_NInf\<close>)

text \<open>
  The value that reaches an INTEGER column through \<open>clamp\<close> is NULL exactly when the
  clamped number is NaN, and lies within the bounds otherwise.
\<close>

lemma sql_clamp_range:
  fixes lo hi :: int
  assumes "lo \<le> hi"
  shows "case sql_integer (clamp v (Fin (of_int lo)) (Fin (of_int hi))) of
           None \<Rightarrow> v = NaN
         | Some i \<Rightarrow> v \<noteq> NaN \<and> lo \<le> i \<and> i \<le> hi"
proof (cases "v = NaN")
  case True
  then show ?thesis by (simp add: clamp_NaN)
next
  case False
  have "(of_int lo :: real) \<le> of_int hi" using assms by simp
  from clamp_range[OF this False] obtain r where
    r: "clamp v (Fin (of_int lo)) (Fin (of_int hi)) = Fin r" "of_int lo \<le> r" "r \<le> of_int hi"
    by blast
  have "lo \<le> \<lfloor>r\<rfloor>" using r(2) by (simp add: le_floor_iff)
  moreover have "\<lfloor>r\<rfloor> \<le> hi" using r(3) by (simp add: floor_le_iff)
  ultimately show ?thesis using r(1) False by simp
qed

lemma clamp_parseInt_cases:
  fixes lo hi :: int
  assumes "lo \<le> hi"
  shows "in_range (sql_integer (clamp x (Fin (of_int lo)) (Fin (of_int hi)))) lo hi"
  using sql_clamp_range[OF assms, of x]
  by (simp add: in_range_def split: option.splits)

section \<open>Room creation\<close>

lemma parseInt_abc: "parseInt_str ''abc'' = NaN"
  by (simp add: parseInt_str_def strip_sign_def strip_prefix_def is_space_def is_digit_def
      digit_val_def)

lemma parseInt_str_defaults:
  "parseInt_str ''800'' = Fin 800" "parseInt_str ''20'' = Fin 20" "parseInt_str ''50'' = Fin 50"
  by (simp_all add: parseInt_str_def strip_sign_def strip_prefix_def is_space_def is_digit_def
      digit_val_def digits_value_def double_of_nat_def)

lemma room_config_bad: "room_config bad_body = (NaN, Fin 20, Fin 50)"
  by (simp add: room_config_def bad_body_def js_or_def parseInt_abc parseInt_str_defaults
      clamp_def Math_max_def Math_min_def)

lemma post_rooms_bad:
  "post_rooms empty_db ''K3J9QA'' bad_body = (Inr (''K3J9QA'', NaN, Fin 20, Fin 50), bad_db)"
  by (simp add: post_rooms_def room_config_bad getRoom_def empty_db_def bad_db_def)

text \<open>
  Claim C6. Room creation is meant to store a \<open>startRadius\<close> in \<open>[20, 100000]\<close>, a
  \<open>shrinkStepSec\<close> in \<open>[1, 86400]\<close> and a \<open>shrinkAmount\<close> in \<open>[1, 100000]\<close> whatever the
  client sends. For the body \<^verbatim>\<open>{"startRadius": "abc"}\<close> the handler computes NaN
  (\<^verbatim>\<open>parseInt("abc")\<close> is NaN and \<^verbatim>\<open>Math.min\<close>, \<^verbatim>\<open>Math.max\<close> keep it), answers with it and
  stores NULL: the stored \<open>startRadius\<close> is not in the range.
\<close>

theorem post_rooms_non_numeric:
  "post_rooms empty_db ''K3J9QA'' bad_body =
     (Inr (''K3J9QA'', NaN, Fin 20, Fin 50),
      empty_db\<lparr>rooms := [\<lparr>code = ''K3J9QA'', startRadius = None, shrinkStepSec = Some 20,
                           shrinkAmount = Some 50, startedAt = None\<rparr>]\<rparr>)"
  unfolding post_rooms_bad by (simp add: bad_db_def empty_db_def)

text \<open>What does hold for every body: each stored field is NULL or within its range.\<close>

lemma room_config_ok:
  "config_ok \<lparr>code = c, startRadius = sql_integer (fst (room_config body)),
              shrinkStepSec = sql_integer (fst (snd (room_config body))),
              shrinkAmount = sql_integer (snd (snd (room_config body))), startedAt = t\<rparr>"
proof -
  have a: "in_range (sql_integer (clamp x (Fin 20) (Fin 100000))) 20 100000" for x
    using clamp_parseInt_cases[of 20 100000 x] by simp
  have b: "in_range (sql_integer (clamp x (Fin 1) (Fin 86400))) 1 86400" for x
    using clamp_parseInt_cases[of 1 86400 x] by simp
  have c: "in_range (sql_integer (clamp x (Fin 1) (Fin 100000))) 1 100000" for x
    using clamp_parseInt_cases[of 1 100000 x] by simp
  show ?thesis by (simp add: config_ok_def room_config_def Let_def a b c)
qed

lemma post_rooms_config_ok:
  assumes "\<forall>r \<in> set (rooms d). config_ok r"
  shows "\<forall>r \<in> set (rooms (snd (post_rooms d uid body))). config_ok r"
  using assms room_config_ok[of uid body None]
  by (auto simp: post_rooms_def Let_def split: prod.splits)

lemma post_start_config_ok:
  assumes "\<forall>r \<in> set (rooms d). config_ok r"
  shows "\<forall>r \<in> set (rooms (snd (post_start d nowTs c))). config_ok r"
  using assms by (auto simp: post_start_def Let_def config_ok_def)

lemma post_join_rooms: "rooms (snd (post_join d uuid ts body)) = rooms d"
  by (simp add: post_join_def Let_def)

lemma post_location_rooms: "rooms (snd (post_location d ts body)) = rooms d"
  by (simp add: post_location_def Let_def)

section \<open>Zone radius\<close>

lemma zoneRadius_floor: "int_or (startedAt r) 0 \<noteq> 0 \<Longrightarrow> 20 \<le> zoneRadius r nowTs"
  by (simp add: zoneRadius_def Let_def)

lemma zoneRadius_mono:
  assumes "0 \<le> int_or (shrinkAmount r) 50" "now1 \<le> now2"
  shows "zoneRadius r now2 \<le> zoneRadius r now1"
proof (cases "int_or (startedAt r) 0 \<noteq> 0")
  case True
  define k where "k = max 1 (to_number (shrinkStepSec r)) * 1000"
  define t where "t = to_number (startedAt r)"
  have kpos: "0 < k" by (simp add: k_def)
  have "(now1 - t) div k \<le> (now2 - t) div k"
    using assms(2) kpos by (intro zdiv_mono1) auto
  then have "(now1 - t) div k * int_or (shrinkAmount r) 50
               \<le> (now2 - t) div k * int_or (shrinkAmount r) 50"
    using assms(1) by (rule mult_right_mono)
  then show ?thesis using True by (simp add: zoneRadius_def Let_def k_def t_def)
next
  case False
  then show ?thesis by (simp add: zoneRadius_def)
qed

lemma config_ok_shrinkAmount: "config_ok r \<Longrightarrow> 0 \<le> int_or (shrinkAmount r) 50"
  by (auto simp: config_ok_def in_range_def int_or_def split: option.splits)

text \<open>
  Claim C8. For a started room (\<open>startedAt\<close> set) whose configuration is one that room
  creation stores, the zone radius does not grow as the time of the request grows, and
  it is at least 20 at every time.
\<close>

theorem zoneRadius_monotone_floor:
  assumes "config_ok r" and "startedAt r = Some t" and "t \<noteq> 0" and "now1 \<le> now2"
  shows "zoneRadius r now2 \<le> zoneRadius r now1 \<and> 20 \<le> zoneRadius r now1
         \<and> 20 \<le> zoneRadius r now2"
proof -
  have started: "int_or (startedAt r) 0 \<noteq> 0" using assms(2,3) by (simp add: int_or_def)
  show ?thesis
    using zoneRadius_mono[OF config_ok_shrinkAmount[OF assms(1)] assms(4)]
      zoneRadius_floor[OF started] by simp
qed

theorem zoneRadius_monotone_floor_witness:
  "config_ok demo_room \<and> startedAt demo_room = Some 1000 \<and> (1000::int) \<noteq> 0
   \<and> (46000::int) \<le> 66000
   \<and> zoneRadius demo_room 66000 \<le> zoneRadius demo_room 46000
   \<and> 20 \<le> zoneRadius demo_room 46000 \<and> 20 \<le> zoneRadius demo_room 66000
   \<and> zoneRadius demo_room 46000 = 700 \<and> zoneRadius demo_room 66000 = 650"
proof -
  have c: "config_ok demo_room" by (simp add: config_ok_def in_range_def demo_room_def)
  have s: "startedAt demo_room = Some 1000" by (simp add: demo_room_def)
  have v1: "zoneRadius demo_room 46000 = 700"
    by (simp add: zoneRadius_def demo_room_def int_or_def to_number_def)
  have v2: "zoneRadius demo_room 66000 = 650"
    by (simp add: zoneRadius_def demo_room_def int_or_def to_number_def)
  show ?thesis
    using zoneRadius_monotone_floor[OF c s, of 46000 66000] c s v1 v2 by simp
qed

lemma detect_catches_Nil: "detect_catches hv cm ([], d) = ([], d)"
  by (simp add: detect_catches_def)

lemma toUpperCase_K3J9QA: "toUpperCase ''K3J9QA'' = ''K3J9QA''"
  by (simp add: toUpperCase_def)

lemma toUpperCase_room01: "toUpperCase ''room01'' = ''ROOM01''"
  by (simp add: toUpperCase_def)

text \<open>
  Claim C3, as stated: the returned \<open>zoneRadius\<close> equals \<open>startRadius\<close> when
  \<open>startedAt\<close> is null. It fails for the room that \<open>bad_body\<close> created: its
  \<open>startRadius\<close> is null, it is not started, and the state request returns the radius
  800 (\<^verbatim>\<open>roomRow.startRadius || 800\<close>).
\<close>

theorem zoneRadius_counterexample:
  "get_state haversine (snd (post_rooms empty_db ''K3J9QA'' bad_body)) 5000 5001 ''K3J9QA''
     None None =
     (Inr \<lparr>s_code = ''K3J9QA'', s_startRadius = None, s_shrinkStepSec = Some 20,
           s_shrinkAmount = Some 50, s_startedAt = None, s_zoneRadius = 800,
           s_players = [], s_now = 5001\<rparr>,
      snd (post_rooms empty_db ''K3J9QA'' bad_body))"
  unfolding post_rooms_bad snd_conv
  by (simp add: bad_db_def get_state_def Let_def toUpperCase_K3J9QA getRoom_def
      zoneRadius_def int_or_def playerRows_def build_players_def detect_catches_Nil
      find_viewer_def)

text \<open>
  Claim C3, amended. In every state response, with \<open>R\<close> the room's \<open>startRadius\<close>, or 800
  when that is null or 0, \<open>S\<close> its \<open>shrinkStepSec\<close> raised to at least 1 (1 when null) and
  \<open>A\<close> its \<open>shrinkAmount\<close>, or 50 when that is null or 0: \<open>zoneRadius\<close> is \<open>R\<close> when
  \<open>startedAt\<close> is null (or 0), and \<open>max(20, R - floor((now - startedAt) / (S * 1000)) * A)\<close>
  when \<open>startedAt\<close> is set, the times in milliseconds.
\<close>

theorem get_state_zoneRadius:
  assumes "get_state hv d nowTs sendTs room pq cq = (Inr r, d')"
  shows "s_zoneRadius r =
     (let R = (case s_startRadius r of None \<Rightarrow> 800 | Some n \<Rightarrow> if n = 0 then 800 else n);
          S = (case s_shrinkStepSec r of None \<Rightarrow> 1 | Some n \<Rightarrow> max 1 n);
          A = (case s_shrinkAmount r of None \<Rightarrow> 50 | Some n \<Rightarrow> if n = 0 then 50 else n)
      in case s_startedAt r of
           None \<Rightarrow> R
         | Some t \<Rightarrow> if t = 0 then R else max 20 (R - (nowTs - t) div (S * 1000) * A))"
proof -
  from assms obtain roomRow where
    r: "r = \<lparr>s_code = code roomRow, s_startRadius = startRadius roomRow,
             s_shrinkStepSec = shrinkStepSec roomRow, s_shrinkAmount = shrinkAmount roomRow,
             s_startedAt = startedAt roomRow, s_zoneRadius = zoneRadius roomRow nowTs,
             s_players = s_players r, s_now = sendTs\<rparr>"
    by (auto simp: get_state_def Let_def split: option.splits)
  have "zoneRadius roomRow nowTs =
     (let R = (case startRadius roomRow of None \<Rightarrow> 800 | Some n \<Rightarrow> if n = 0 then 800 else n);
          S = (case shrinkStepSec roomRow of None \<Rightarrow> 1 | Some n \<Rightarrow> max 1 n);
          A = (case shrinkAmount roomRow of None \<Rightarrow> 50 | Some n \<Rightarrow> if n = 0 then 50 else n)
      in case startedAt roomRow of
           None \<Rightarrow> R
         | Some t \<Rightarrow> if t = 0 then R else max 20 (R - (nowTs - t) div (S * 1000) * A))"
    by (simp add: zoneRadius_def int_or_def to_number_def Let_def split: option.splits)
  then show ?thesis by (subst r, subst (1 2 3 4 5) r) simp
qed

lemma get_state_room_db:
  "get_state haversine room_db 46000 46001 ''room01'' None None =
     (Inr \<lparr>s_code = ''ROOM01'', s_startRadius = Some 800, s_shrinkStepSec = Some 20,
           s_shrinkAmount = Some 50, s_startedAt = Some 1000, s_zoneRadius = 700,
           s_players = [], s_now = 46001\<rparr>, room_db)"
  by (simp add: room_db_def demo_room_def get_state_def Let_def toUpperCase_room01 getRoom_def
      empty_db_def zoneRadius_def int_or_def to_number_def playerRows_def build_players_def
      detect_catches_Nil find_viewer_def)

theorem get_state_zoneRadius_witness:
  "get_state haversine room_db 46000 46001 ''room01'' None None =
     (Inr \<lparr>s_code = ''ROOM01'', s_startRadius = Some 800, s_shrinkStepSec = Some 20,
           s_shrinkAmount = Some 50, s_startedAt = Some 1000, s_zoneRadius = 700,
           s_players = [], s_now = 46001\<rparr>, room_db)
   \<and> (700::int) = max 20 (800 - (46000 - 1000) div (20 * 1000) * 50)"
  using get_state_zoneRadius[OF get_state_room_db] get_state_room_db by simp

text \<open>
  With a configuration stored from numeric input (no field null) the amended formula
  is the one of the claim.
\<close>

lemma zoneRadius_numeric_config:
  assumes "startRadius r = Some R" "shrinkStepSec r = Some S" "shrinkAmount r = Some A"
    and "config_ok r"
  shows "zoneRadius r nowTs =
     (case startedAt r of
        None \<Rightarrow> R
      | Some t \<Rightarrow> if t = 0 then R else max 20 (R - (nowTs - t) div (S * 1000) * A))"
  using assms
  by (auto simp: zoneRadius_def int_or_def to_number_def Let_def config_ok_def in_range_def
      split: option.splits)

section \<open>The catch threshold\<close>

lemma mod10_cases: "(d::nat) mod 10 \<in> {0, 1, 2, 3, 4, 5, 6, 7, 8, 9}"
proof -
  have "d mod 10 < 10" by simp
  then show ?thesis by (simp only: insert_iff empty_iff) arith
qed

lemma digit_val_digit_char: "digit_val (digit_char d) = Some (d mod 10)"
  using mod10_cases[of d] by (auto simp: digit_char_def digit_val_def)

lemma digit_char_props:
  "is_digit 10 (digit_char d)" "\<not> is_space (digit_char d)"
  "digit_char d \<noteq> CHR ''-''" "digit_char d \<noteq> CHR ''+''"
  "digit_char d \<noteq> CHR ''x''" "digit_char d \<noteq> CHR ''X''"
  using mod10_cases[of d]
  by (auto simp: digit_char_def is_digit_def digit_val_def is_space_def)

lemma digit_char_zero: "d < 10 \<Longrightarrow> digit_char d = CHR ''0'' \<Longrightarrow> d = 0"
  using mod10_cases[of d] by (auto simp: digit_char_def)

lemmas show_nat_unfold = show_nat.simps

declare show_nat.simps [simp del]

lemma show_nat_digits: "c \<in> set (show_nat n) \<Longrightarrow> \<exists>d. c = digit_char d"
  by (induction n arbitrary: c rule: show_nat.induct)
    (subst (asm) show_nat_unfold, auto split: if_splits)

lemma show_nat_nonempty: "show_nat n \<noteq> []"
  by (subst show_nat_unfold) simp

lemma digits_value_snoc:
  "digits_value R (ds @ [c]) =
     digits_value R ds * R + (case digit_val c of None \<Rightarrow> 0 | Some d \<Rightarrow> d)"
  by (simp add: digits_value_def)

lemma digits_value_show_nat: "digits_value 10 (show_nat n) = n"
proof (induction n rule: show_nat.induct)
  case (1 n)
  show ?case
  proof (cases "n < 10")
    case True
    then show ?thesis
      by (subst show_nat_unfold) (simp add: digits_value_def digit_val_digit_char)
  next
    case False
    with 1 have "digits_value 10 (show_nat (n div 10)) = n div 10" by simp
    with False show ?thesis
      by (subst show_nat_unfold) (simp add: digits_value_snoc digit_val_digit_char)
  qed
qed

lemma hd_show_nat: "0 < n \<Longrightarrow> hd (show_nat n) \<noteq> CHR ''0''"
proof (induction n rule: show_nat.induct)
  case (1 n)
  show ?case
  proof (cases "n < 10")
    case True
    with 1(2) show ?thesis
      by (subst show_nat_unfold) (auto dest: digit_char_zero)
  next
    case False
    then have "0 < n div 10" by simp
    with 1 False have "hd (show_nat (n div 10)) \<noteq> CHR ''0''" by simp
    with False show ?thesis
      by (subst show_nat_unfold) (simp add: show_nat_nonempty)
  qed
qed

lemma show_nat_0: "show_nat 0 = ''0''"
  by (subst show_nat_unfold) (simp add: digit_char_def)

lemma takeWhile_show_nat:
  assumes "rest = [] \<or> \<not> is_digit 10 (hd rest)"
  shows "takeWhile (is_digit 10) (show_nat n @ rest) = show_nat n"
proof -
  have all: "\<forall>c \<in> set (show_nat n). is_digit 10 c"
    using show_nat_digits digit_char_props(1) by blast
  have "takeWhile (is_digit 10) rest = []" using assms by (cases rest) auto
  with all show ?thesis by (simp add: takeWhile_append2)
qed

lemma strip_sign_show_nat:
  "strip_sign (dropWhile is_space (show_nat n @ rest)) = (False, show_nat n @ rest)"
proof -
  obtain c cs where cs: "show_nat n = c # cs"
    using show_nat_nonempty by (cases "show_nat n") auto
  then have "c \<in> set (show_nat n)" by simp
  then obtain d where "c = digit_char d" using show_nat_digits by blast
  with cs show ?thesis by (simp add: strip_sign_def digit_char_props)
qed

lemma strip_prefix_show_nat:
  assumes "n = 0 \<longrightarrow> rest = [] \<or> (hd rest \<noteq> CHR ''x'' \<and> hd rest \<noteq> CHR ''X'')"
  shows "strip_prefix (show_nat n @ rest) = (10, show_nat n @ rest)"
proof (cases "n = 0")
  case True
  with assms show ?thesis by (cases rest) (auto simp: show_nat_0 strip_prefix_def)
next
  case False
  then have "hd (show_nat n) \<noteq> CHR ''0''" using hd_show_nat by simp
  moreover obtain c cs where "show_nat n = c # cs"
    using show_nat_nonempty by (cases "show_nat n") auto
  ultimately show ?thesis by (auto simp: strip_prefix_def split: list.splits)
qed

text \<open>
  The digits of \<open>n\<close>, alone or followed by text that does not start with a digit, are read
  as the double nearest to \<open>n\<close>, which is \<open>n\<close> itself up to \<open>2\<^sup>5\<^sup>3\<close>.
\<close>

lemma parseInt_str_show_nat_double:
  assumes "rest = [] \<or> \<not> is_digit 10 (hd rest)"
    and "n = 0 \<longrightarrow> rest = [] \<or> (hd rest \<noteq> CHR ''x'' \<and> hd rest \<noteq> CHR ''X'')"
  shows "parseInt_str (show_nat n @ rest) = double_of_nat n"
  by (simp add: parseInt_str_def strip_sign_show_nat strip_prefix_show_nat[OF assms(2)]
      takeWhile_show_nat[OF assms(1)] show_nat_nonempty digits_value_show_nat)

lemma double_of_nat_exact: "n \<le> 2 ^ 53 \<Longrightarrow> double_of_nat n = Fin (real n)"
  by (simp add: double_of_nat_def)

lemma parseInt_str_show_nat:
  assumes "rest = [] \<or> \<not> is_digit 10 (hd rest)"
    and "n = 0 \<longrightarrow> rest = [] \<or> (hd rest \<noteq> CHR ''x'' \<and> hd rest \<noteq> CHR ''X'')"
    and "n \<le> 2 ^ 53"
  shows "parseInt_str (show_nat n @ rest) = Fin (real n)"
  using parseInt_str_show_nat_double[OF assms(1,2)] double_of_nat_exact[OF assms(3)] by simp

lemma parseInt_str_30: "parseInt_str ''30'' = Fin 30"
  by (simp add: parseInt_str_def strip_sign_def strip_prefix_def is_space_def is_digit_def
      digit_val_def digits_value_def double_of_nat_def)

text \<open>
  Above \<open>2\<^sup>5\<^sup>3\<close> the digits are rounded: \<^verbatim>\<open>parseInt('9007199254740993')\<close> is
  9007199254740992, and so is the threshold for that parameter.
\<close>

lemma parseInt_str_rounds: "parseInt_str ''9007199254740993'' = Fin 9007199254740992"
  by (simp add: parseInt_str_def strip_sign_def strip_prefix_def is_space_def is_digit_def
      digit_val_def digits_value_def double_of_nat_def)

lemma catchMeters_rounds:
  "catchMeters_of (Some ''9007199254740993'') = Fin 9007199254740992"
  by (simp add: catchMeters_of_def js_or_def parseInt_str_rounds)

lemma double_of_nat_samples:
  "double_of_nat 9007199254740995 = Fin 9007199254740996"
  "double_of_nat (2 ^ 1024) = PInf"
  by (simp_all add: double_of_nat_def)

text \<open>
  Claim C5, as stated: the threshold is the numeric value of the \<^verbatim>\<open>catchMeters\<close> query
  parameter. For the parameter \<^verbatim>\<open>12.7\<close> the threshold used is 12, not 12.7: the handler
  reads the parameter with \<^verbatim>\<open>parseInt\<close>.
\<close>

theorem catchMeters_counterexample:
  "catchMeters_of (Some ''12.7'') = Fin 12 \<and> catchMeters_of (Some ''12.7'') \<noteq> Fin (127 / 10)"
  by (simp add: catchMeters_of_def js_or_def parseInt_str_def strip_sign_def strip_prefix_def
      is_space_def is_digit_def digit_val_def digits_value_def double_of_nat_def)

text \<open>
  Claim C5, amended. The threshold is 30 when the \<^verbatim>\<open>catchMeters\<close> parameter is absent or
  empty. When the parameter is the decimal digits of a natural number \<open>n\<close> of at most
  \<open>2\<^sup>5\<^sup>3\<close> (9007199254740992), alone or followed by text that does not start with a digit
  (a fraction such as \<^verbatim>\<open>.7\<close>; after a lone \<^verbatim>\<open>0\<close>, not \<^verbatim>\<open>x\<close> or \<^verbatim>\<open>X\<close>), the threshold is
  the integer \<open>n\<close>.
\<close>

theorem catchMeters_of_parse:
  "catchMeters_of None = Fin 30 \<and> catchMeters_of (Some []) = Fin 30 \<and>
   ((rest = [] \<or> \<not> is_digit 10 (hd rest)) \<and>
    (n = 0 \<longrightarrow> rest = [] \<or> (hd rest \<noteq> CHR ''x'' \<and> hd rest \<noteq> CHR ''X'')) \<and>
    n \<le> 2 ^ 53
    \<longrightarrow> catchMeters_of (Some (show_nat n @ rest)) = Fin (real n))"
  by (simp add: catchMeters_of_def js_or_def parseInt_str_30 show_nat_nonempty
      parseInt_str_show_nat)

lemma show_nat_12: "show_nat 12 = ''12''"
  by (simp add: show_nat_unfold digit_char_def)

theorem catchMeters_of_parse_witness:
  "(''.7'' = [] \<or> \<not> is_digit 10 (hd ''.7'')) \<and> catchMeters_of (Some ''12.7'') = Fin 12"
  using catchMeters_of_parse[of "''.7''" 12]
  by (simp add: show_nat_12 is_digit_def digit_val_def)

text \<open>A parameter with no leading digit gives the threshold NaN, under which no
  comparison \<^verbatim>\<open>d <= catchMeters\<close> holds.\<close>

lemma catchMeters_non_numeric:
  "catchMeters_of (Some ''abc'') = NaN \<and> \<not> js_le d (catchMeters_of (Some ''abc''))"
  by (cases d) (simp_all add: catchMeters_of_def js_or_def parseInt_abc)

section \<open>Catch detection: the invariant\<close>

lemma same_but_status_refl: "same_but_status p p"
  by (simp add: same_but_status_def)

lemma same_but_status_trans:
  "same_but_status p q \<Longrightarrow> same_but_status q r \<Longrightarrow> same_but_status p r"
  by (auto simp: same_but_status_def)

lemma obj_evolves_refl: "obj_evolves ps ps"
  by (simp add: obj_evolves_def list_all2_refl same_but_status_refl)

lemma obj_evolves_trans:
  assumes "obj_evolves ps qs" "obj_evolves qs rs"
  shows "obj_evolves ps rs"
proof -
  have "list_all2 (\<lambda>e e'. fst e' = fst e \<and> same_but_status (snd e) (snd e')) ps rs"
    using assms unfolding obj_evolves_def
    by (rule list_all2_trans[rotated]) (auto intro: same_but_status_trans)
  then show ?thesis by (simp add: obj_evolves_def)
qed


lemma obj_evolves_map_of:
  "obj_evolves ps ps' \<Longrightarrow> map_of ps k = Some p \<Longrightarrow>
     \<exists>p'. map_of ps' k = Some p' \<and> same_but_status p p'"
  unfolding obj_evolves_def
  by (induction rule: list_all2_induct) (auto split: if_splits)

lemma obj_evolves_map_of_rev:
  "obj_evolves ps ps' \<Longrightarrow> map_of ps' k = Some p' \<Longrightarrow>
     \<exists>p. map_of ps k = Some p \<and> same_but_status p p'"
  unfolding obj_evolves_def
  by (induction rule: list_all2_induct) (auto split: if_splits)

lemma obj_evolves_update:
  assumes "map_of ps k = Some b" "same_but_status b b'"
  shows "obj_evolves ps (AList.update k b' ps)"
  using assms unfolding obj_evolves_def
proof (induction ps)
  case Nil
  then show ?case by simp
next
  case (Cons e ps)
  then show ?case
    by (cases e) (auto simp: same_but_status_refl list_all2_refl split: if_splits)
qed

lemma catch_inner_cases:
  "catch_inner hv cm aId a bId s = s \<or>
   (\<exists>b. aId \<noteq> bId \<and> map_of (fst s) bId = Some b \<and> o_role b = ''runner'' \<and> o_lat b \<noteq> None \<and>
        js_le (distMeters hv (o_lat a) (o_lng a) (o_lat b) (o_lng b)) cm \<and>
        o_status b \<noteq> ''caught'' \<and>
        catch_inner hv cm aId a bId s =
          (AList.update bId (b\<lparr>o_status := ''caught''\<rparr>) (fst s),
           update_status (snd s) ''caught'' bId))"
  by (cases s) (auto simp: catch_inner_def Let_def split: option.splits)

lemma catch_inv_init: "catch_inv hv cm ps0 d0 (ps0, d0)"
  by (simp add: catch_inv_def obj_evolves_refl new_log_def)

lemma new_log_update_status:
  assumes "status_log d = status_log d0 @ new_log d0 d"
  shows "new_log d0 (update_status d st k) = new_log d0 d @ [(st, k)]"
proof -
  have "length (status_log d0) \<le> length (status_log d)"
    using assms by (metis length_append le_add1)
  then show ?thesis by (simp add: new_log_def update_status_def)
qed

lemma update_status_simps:
  "rooms (update_status d st k) = rooms d"
  "locations (update_status d st k) = locations d"
  "status_log (update_status d st k) = status_log d @ [(st, k)]"
  "players (update_status d st k) =
     map (\<lambda>p. if p_id p = k then p\<lparr>p_status := Some st\<rparr> else p) (players d)"
  by (simp_all add: update_status_def)

lemma catch_inv_write:
  assumes inv: "catch_inv hv cm ps0 d0 (ps, d)"
    and b: "map_of ps bId = Some b" "o_status b \<noteq> ''caught''"
    and pair: "caught_pair hv cm ps0 bId"
  shows "catch_inv hv cm ps0 d0
           (AList.update bId (b\<lparr>o_status := ''caught''\<rparr>) ps, update_status d ''caught'' bId)"
proof -
  let ?ps' = "AList.update bId (b\<lparr>o_status := ''caught''\<rparr>) ps"
  let ?d' = "update_status d ''caught'' bId"
  let ?new = "new_log d0 d"
  from inv have ev: "obj_evolves ps0 ps"
    and log: "status_log d = status_log d0 @ ?new"
    and dist: "distinct (map snd ?new)"
    and ent: "\<forall>e \<in> set ?new. fst e = ''caught'' \<and> caught_pair hv cm ps0 (snd e) \<and>
        (\<exists>b. map_of ps (snd e) = Some b \<and> o_status b = ''caught'') \<and>
        (\<forall>row \<in> set (players d). p_id row = snd e \<longrightarrow> p_status row = Some ''caught'')"
    and chg: "\<forall>k p p'. map_of ps0 k = Some p \<longrightarrow> map_of ps k = Some p' \<longrightarrow>
        o_status p' \<noteq> o_status p \<longrightarrow> k \<in> snd ` set ?new"
    and rl: "rooms d = rooms d0" "locations d = locations d0"
    by (simp_all add: catch_inv_def)
  have new': "new_log d0 ?d' = ?new @ [(''caught'', bId)]"
    using log by (rule new_log_update_status)
  have fresh: "bId \<notin> snd ` set ?new"
  proof
    assume "bId \<in> snd ` set ?new"
    then obtain e where "e \<in> set ?new" "snd e = bId" by auto
    with ent have "\<exists>b. map_of ps bId = Some b \<and> o_status b = ''caught''" by auto
    with b show False by simp
  qed
  have 1: "obj_evolves ps0 ?ps'"
  proof -
    have "same_but_status b (b\<lparr>o_status := ''caught''\<rparr>)" by (simp add: same_but_status_def)
    from obj_evolves_update[OF b(1) this] ev show ?thesis by (rule obj_evolves_trans[rotated])
  qed
  have 2: "status_log ?d' = status_log d0 @ new_log d0 ?d'"
    using log by (simp add: new' update_status_simps)
  have 3: "distinct (map snd (new_log d0 ?d'))"
    using dist fresh by (simp add: new')
  have upd_same: "map_of ?ps' bId = Some (b\<lparr>o_status := ''caught''\<rparr>)"
    by (simp add: update_conv')
  have upd_other: "map_of ?ps' k = map_of ps k" if "k \<noteq> bId" for k
    using that by (simp add: update_conv')
  have rows_same: "p_status row = Some ''caught''"
    if "row \<in> set (players ?d')" "p_id row = bId" for row
  proof -
    from that(1) obtain r0 where "r0 \<in> set (players d)"
      "row = (if p_id r0 = bId then r0\<lparr>p_status := Some ''caught''\<rparr> else r0)"
      unfolding update_status_simps by auto
    with that(2) show ?thesis by (cases "p_id r0 = bId") simp_all
  qed
  have rows_other: "p_status row = Some ''caught''"
    if "row \<in> set (players ?d')" "p_id row = k"
      "\<forall>row \<in> set (players d). p_id row = k \<longrightarrow> p_status row = Some ''caught''" for row k
  proof -
    from that(1) obtain r0 where r0: "r0 \<in> set (players d)"
      "row = (if p_id r0 = bId then r0\<lparr>p_status := Some ''caught''\<rparr> else r0)"
      unfolding update_status_simps by auto
    show ?thesis
    proof (cases "p_id r0 = bId")
      case True
      with r0 show ?thesis by simp
    next
      case False
      with r0 that(2) have "row = r0" "p_id r0 = k" by simp_all
      with r0(1) that(3) show ?thesis by blast
    qed
  qed
  have 4: "fst e = ''caught'' \<and> caught_pair hv cm ps0 (snd e) \<and>
        (\<exists>b. map_of ?ps' (snd e) = Some b \<and> o_status b = ''caught'') \<and>
        (\<forall>row \<in> set (players ?d'). p_id row = snd e \<longrightarrow> p_status row = Some ''caught'')"
    if "e \<in> set (new_log d0 ?d')" for e
  proof (cases "e = (''caught'', bId)")
    case True
    have "\<exists>b. map_of ?ps' bId = Some b \<and> o_status b = ''caught''"
      using upd_same by simp
    moreover have "\<forall>row \<in> set (players ?d'). p_id row = bId \<longrightarrow> p_status row = Some ''caught''"
      using rows_same by blast
    ultimately show ?thesis using pair True by simp
  next
    case False
    with that have e: "e \<in> set ?new" by (simp add: new')
    with fresh have ne: "snd e \<noteq> bId" by auto
    from ent e have E: "fst e = ''caught'' \<and> caught_pair hv cm ps0 (snd e) \<and>
        (\<exists>b. map_of ps (snd e) = Some b \<and> o_status b = ''caught'') \<and>
        (\<forall>row \<in> set (players d). p_id row = snd e \<longrightarrow> p_status row = Some ''caught'')"
      by (rule bspec)
    then have "\<exists>b. map_of ?ps' (snd e) = Some b \<and> o_status b = ''caught''"
      using upd_other[OF ne] by simp
    moreover have "\<forall>row \<in> set (players ?d'). p_id row = snd e \<longrightarrow> p_status row = Some ''caught''"
      using rows_other E by blast
    ultimately show ?thesis using E by blast
  qed
  have 5: "k \<in> snd ` set (new_log d0 ?d')"
    if "map_of ps0 k = Some p" "map_of ?ps' k = Some p'" "o_status p' \<noteq> o_status p" for k p p'
  proof (cases "k = bId")
    case True
    then show ?thesis by (simp add: new')
  next
    case False
    with that have "map_of ps k = Some p'" by (simp add: upd_other)
    with chg that(1,3) have "k \<in> snd ` set ?new" by blast
    then show ?thesis by (simp add: new')
  qed
  have 6: "rooms ?d' = rooms d0" "locations ?d' = locations d0"
    using rl by (simp_all add: update_status_simps)
  show ?thesis
    unfolding catch_inv_def fst_conv snd_conv
  proof (intro conjI ballI allI impI)
    show "obj_evolves ps0 ?ps'" by (rule 1)
    show "rooms ?d' = rooms d0" by (rule 6)
    show "locations ?d' = locations d0" by (rule 6)
    show "status_log ?d' = status_log d0 @ new_log d0 ?d'" by (rule 2)
    show "distinct (map snd (new_log d0 ?d'))" by (rule 3)
  next
    fix e assume "e \<in> set (new_log d0 ?d')"
    from 4[OF this] show "fst e = ''caught''" "caught_pair hv cm ps0 (snd e)"
      "\<exists>b. map_of ?ps' (snd e) = Some b \<and> o_status b = ''caught''"
      by blast+
    fix row assume "row \<in> set (players ?d')" "p_id row = snd e"
    with 4[OF \<open>e \<in> set (new_log d0 ?d')\<close>] show "p_status row = Some ''caught''" by blast
  next
    fix k p p'
    assume "map_of ps0 k = Some p" "map_of ?ps' k = Some p'" "o_status p' \<noteq> o_status p"
    then show "k \<in> snd ` set (new_log d0 ?d')" by (rule 5)
  qed
qed

lemma catch_inv_inner:
  assumes inv: "catch_inv hv cm ps0 d0 s" and h: "hunter_of ps0 aId a"
  shows "catch_inv hv cm ps0 d0 (catch_inner hv cm aId a bId s)"
proof -
  from catch_inner_cases[of hv cm aId a bId s] show ?thesis
  proof
    assume "catch_inner hv cm aId a bId s = s"
    with inv show ?thesis by simp
  next
    assume "\<exists>b. aId \<noteq> bId \<and> map_of (fst s) bId = Some b \<and> o_role b = ''runner'' \<and> o_lat b \<noteq> None \<and>
        js_le (distMeters hv (o_lat a) (o_lng a) (o_lat b) (o_lng b)) cm \<and>
        o_status b \<noteq> ''caught'' \<and>
        catch_inner hv cm aId a bId s =
          (AList.update bId (b\<lparr>o_status := ''caught''\<rparr>) (fst s),
           update_status (snd s) ''caught'' bId)"
    then obtain b where ne: "aId \<noteq> bId" and b: "map_of (fst s) bId = Some b"
      and rb: "o_role b = ''runner''" "o_lat b \<noteq> None"
      and le: "js_le (distMeters hv (o_lat a) (o_lng a) (o_lat b) (o_lng b)) cm"
      and st: "o_status b \<noteq> ''caught''"
      and eq: "catch_inner hv cm aId a bId s =
          (AList.update bId (b\<lparr>o_status := ''caught''\<rparr>) (fst s),
           update_status (snd s) ''caught'' bId)"
      by blast
    from inv have ev: "obj_evolves ps0 (fst s)" by (simp add: catch_inv_def)
    from obj_evolves_map_of_rev[OF ev b] obtain b0 where
      b0: "map_of ps0 bId = Some b0" "same_but_status b0 b" by blast
    from h obtain a0 where a0: "map_of ps0 aId = Some a0" "same_but_status a0 a"
      and ra: "o_role a = ''hunter''" "o_lat a \<noteq> None"
      by (auto simp: hunter_of_def)
    have pair: "caught_pair hv cm ps0 bId"
      unfolding caught_pair_def
      using ne a0 b0 ra rb le by (auto simp: same_but_status_def)
    have "catch_inv hv cm ps0 d0 (fst s, snd s)" using inv by simp
    from catch_inv_write[OF this b st pair] eq show ?thesis by simp
  qed
qed

lemma catch_inv_outer:
  assumes inv: "catch_inv hv cm ps0 d0 s"
  shows "catch_inv hv cm ps0 d0 (catch_outer hv cm keys aId s)"
proof (cases "map_of (fst s) aId")
  case None
  then show ?thesis using inv by (simp add: catch_outer_def)
next
  case (Some a)
  show ?thesis
  proof (cases "o_role a \<noteq> ''hunter'' \<or> o_lat a = None")
    case True
    with Some inv show ?thesis by (simp add: catch_outer_def)
  next
    case False
    from inv have ev: "obj_evolves ps0 (fst s)" by (simp add: catch_inv_def)
    from obj_evolves_map_of_rev[OF ev Some] False have h: "hunter_of ps0 aId a"
      by (auto simp: hunter_of_def)
    have "catch_inv hv cm ps0 d0 (fold (catch_inner hv cm aId a) keys s)"
      by (rule fold_invariant[where Q = "\<lambda>_. True"]) (auto intro: inv catch_inv_inner h)
    moreover from False obtain y where "o_role a = ''hunter''" "o_lat a = Some y" by auto
    ultimately show ?thesis using Some by (simp add: catch_outer_def)
  qed
qed

lemma catch_inv_detect: "catch_inv hv cm ps d (detect_catches hv cm (ps, d))"
  unfolding detect_catches_def Let_def
  by (rule fold_invariant[where Q = "\<lambda>_. True"]) (auto intro: catch_inv_init catch_inv_outer)

section \<open>Catch detection: a catch is made\<close>


lemma is_caught_inner:
  assumes "is_caught (fst s) k"
  shows "is_caught (fst (catch_inner hv cm aId a bId s)) k"
  using catch_inner_cases[of hv cm aId a bId s] assms
  by (auto simp: is_caught_def update_conv')

lemma is_caught_outer:
  assumes "is_caught (fst s) k"
  shows "is_caught (fst (catch_outer hv cm keys aId s)) k"
proof -
  have "is_caught (fst (fold (catch_inner hv cm aId a) keys s)) k" for a
    by (rule fold_invariant[where Q = "\<lambda>_. True"]) (auto intro: assms is_caught_inner)
  then show ?thesis using assms by (simp add: catch_outer_def split: option.splits)
qed

lemma is_caught_detect:
  assumes "is_caught ps k"
  shows "is_caught (fst (detect_catches hv cm (ps, d))) k"
  unfolding detect_catches_def Let_def
  by (rule fold_invariant[where Q = "\<lambda>_. True"]) (auto intro: assms is_caught_outer)




section \<open>Catch detection: samples, unknown coordinates, monotonicity\<close>

lemma haversine_same: "haversine 0 0 0 0 = Fin 0"
  by (simp add: haversine_def hav_A_def dist_of_A_def toRad_def atan2_def)

lemma haversine_far: "haversine 0 0 0 180 = Fin (6371000 * pi)"
  by (simp add: haversine_def hav_A_def dist_of_A_def toRad_def atan2_def)

lemma pi_far: "\<not> 6371000 * pi \<le> 30"
  using pi_ge_two by linarith

text \<open>
  Over the reals the quantity \<open>A\<close> is \<open>(1 - cos c) / 2\<close> for the central angle \<open>c\<close> of
  the two points, so it lies between 0 and 1 and the distance is a number.
\<close>

lemma hav_A_eq:
  "hav_A aLat aLng bLat bLng =
     (1 - (sin (toRad aLat) * sin (toRad bLat) +
           cos (toRad aLat) * cos (toRad bLat) * cos (toRad (bLng - aLng)))) / 2"
proof -
  have half: "sin (z / 2) * sin (z / 2) = (1 - cos z) / 2" for z :: real
    using cos_double_sin[of "z / 2"] by (simp add: power2_eq_square)
  have lin: "toRad (bLat - aLat) = toRad bLat - toRad aLat"
    by (simp add: toRad_def algebra_simps diff_divide_distrib)
  have "hav_A aLat aLng bLat bLng =
      (1 - cos (toRad bLat - toRad aLat)) / 2 +
      cos (toRad aLat) * cos (toRad bLat) * ((1 - cos (toRad (bLng - aLng))) / 2)"
    by (simp add: hav_A_def Let_def half lin mult.assoc)
  also have "\<dots> = (1 - (sin (toRad aLat) * sin (toRad bLat) +
           cos (toRad aLat) * cos (toRad bLat) * cos (toRad (bLng - aLng)))) / 2"
    unfolding cos_diff by (simp add: field_simps)
  finally show ?thesis .
qed

lemma sphere_cos_bound:
  fixes c :: real
  assumes "\<bar>c\<bar> \<le> 1"
  shows "\<bar>sin x * sin y + cos x * cos y * c\<bar> \<le> 1"
proof -
  have sx: "sin x ^ 2 + cos x ^ 2 = 1" and sy: "sin y ^ 2 + cos y ^ 2 = 1" by simp_all
  have 1: "2 * \<bar>sin x * sin y\<bar> \<le> sin x ^ 2 + sin y ^ 2"
    using sum_squares_bound[of "\<bar>sin x\<bar>" "\<bar>sin y\<bar>"] by (simp add: abs_mult)
  have 2: "2 * \<bar>cos x * cos y\<bar> \<le> cos x ^ 2 + cos y ^ 2"
    using sum_squares_bound[of "\<bar>cos x\<bar>" "\<bar>cos y\<bar>"] by (simp add: abs_mult)
  have 3: "\<bar>cos x * cos y * c\<bar> \<le> \<bar>cos x * cos y\<bar>"
    using assms by (simp add: abs_mult mult_left_le)
  have "\<bar>sin x * sin y + cos x * cos y * c\<bar> \<le> \<bar>sin x * sin y\<bar> + \<bar>cos x * cos y * c\<bar>"
    by (rule abs_triangle_ineq)
  also have "\<dots> \<le> \<bar>sin x * sin y\<bar> + \<bar>cos x * cos y\<bar>" using 3 by simp
  also have "\<dots> \<le> 1" using 1 2 sx sy by linarith
  finally show ?thesis .
qed

lemma hav_A_range: "0 \<le> hav_A aLat aLng bLat bLng \<and> hav_A aLat aLng bLat bLng \<le> 1"
proof -
  have "\<bar>sin (toRad aLat) * sin (toRad bLat) +
         cos (toRad aLat) * cos (toRad bLat) * cos (toRad (bLng - aLng))\<bar> \<le> 1"
    by (rule sphere_cos_bound) simp
  then show ?thesis unfolding hav_A_eq by (simp add: abs_le_iff)
qed

lemma haversine_finite: "\<exists>x. haversine aLat aLng bLat bLng = Fin x"
  using hav_A_range[of aLat aLng bLat bLng]
  by (simp add: haversine_def dist_of_A_def)

lemma haversine_fp_antipodal:
  "haversine_fp (- 88.39) (- 63.9) 88.39 116.1 = NaN"
  "haversine_fp 88.39 116.1 (- 88.39) (- 63.9) = NaN"
  by (simp_all add: haversine_fp_def antipodal_A_def dist_of_A_def)

lemma Math_round_samples:
  "Math_round (Fin (25 / 2)) = Fin 13" "Math_round (Fin (12 / 5)) = Fin 2"
  "Math_round (Fin (- (5 / 2))) = Fin (- 2)" "Math_round NaN = NaN"
  by simp_all

lemma detect_duo:
  "detect_catches haversine (Fin 30) (duo_ps, empty_db) =
     ([(''h1'', hunter1), (''h2'', hunter2), (''r1'', runner1\<lparr>o_status := ''caught''\<rparr>)],
      empty_db\<lparr>status_log := [(''caught'', ''r1'')]\<rparr>)"
  by (simp add: detect_catches_def duo_ps_def catch_outer_def catch_inner_def hunter1_def
      hunter2_def runner1_def distMeters_def haversine_same update_status_def empty_db_def)

lemma playerRows_demo:
  "playerRows demo_db ''ROOM01'' =
    [\<lparr>r_id = ''h1'', r_name = ''Hana'', r_role = ''hunter'', r_status = Some ''ready'',
      r_lastSeen = Some 1500, r_lat = Some 0, r_lng = Some 0, r_ts = Some 1500\<rparr>,
     \<lparr>r_id = ''h3'', r_name = ''Hedy'', r_role = ''hunter'', r_status = Some ''ready'',
      r_lastSeen = Some 1650, r_lat = None, r_lng = None, r_ts = None\<rparr>,
     \<lparr>r_id = ''r1'', r_name = ''Rio'', r_role = ''runner'', r_status = Some ''ready'',
      r_lastSeen = Some 1700, r_lat = Some 0, r_lng = Some 0, r_ts = Some 1700\<rparr>,
     \<lparr>r_id = ''r2'', r_name = ''Rae'', r_role = ''runner'', r_status = Some ''ready'',
      r_lastSeen = Some 1800, r_lat = Some 0, r_lng = Some 180, r_ts = Some 1800\<rparr>]"
  by (simp add: playerRows_def demo_db_def join_row_def)

lemma snapshot_demo:
  "snapshot demo_db ''room01'' =
     [(''h1'', hunter1), (''h3'', hunter3), (''r1'', runner1), (''r2'', runner2)]"
  by (simp add: snapshot_def toUpperCase_room01 playerRows_demo build_players_def mk_player_def
      str_or_def int_or_null_def hunter1_def hunter3_def runner1_def runner2_def)

lemma detect_demo:
  "detect_catches haversine (Fin 30)
     ([(''h1'', hunter1), (''h3'', hunter3), (''r1'', runner1), (''r2'', runner2)], demo_db) =
     ([(''h1'', hunter1), (''h3'', hunter3), (''r1'', runner1\<lparr>o_status := ''caught''\<rparr>),
       (''r2'', runner2)], demo_db')"
  by (simp add: detect_catches_def catch_outer_def catch_inner_def hunter1_def
      hunter3_def runner1_def runner2_def distMeters_def haversine_same haversine_far pi_far
      demo_db'_def)


lemma same_but_status_eq:
  "same_but_status p p' \<Longrightarrow> o_status p' = o_status p \<Longrightarrow> p' = p"
  by (simp add: same_but_status_def)

lemma detect_catches_unchanged:
  assumes "map_of ps bId = Some b" and "\<not> caught_pair hv cm ps bId"
  shows "map_of (fst (detect_catches hv cm (ps, d))) bId = Some b \<and>
         bId \<notin> snd ` set (new_log d (snd (detect_catches hv cm (ps, d))))"
proof -
  let ?s = "detect_catches hv cm (ps, d)"
  have inv: "catch_inv hv cm ps d ?s" by (rule catch_inv_detect)
  then have ev: "obj_evolves ps (fst ?s)" by (simp add: catch_inv_def)
  from obj_evolves_map_of[OF ev assms(1)] obtain b' where
    b': "map_of (fst ?s) bId = Some b'" "same_but_status b b'" by blast
  have notin: "bId \<notin> snd ` set (new_log d (snd ?s))"
  proof
    assume "bId \<in> snd ` set (new_log d (snd ?s))"
    then obtain e where "e \<in> set (new_log d (snd ?s))" "snd e = bId" by auto
    with inv have "caught_pair hv cm ps bId" unfolding catch_inv_def by blast
    with assms(2) show False by simp
  qed
  have "o_status b' = o_status b"
  proof (rule ccontr)
    assume "o_status b' \<noteq> o_status b"
    with inv assms(1) b'(1) have "bId \<in> snd ` set (new_log d (snd ?s))"
      unfolding catch_inv_def by blast
    with notin show False by simp
  qed
  with b' have "b' = b" by (simp add: same_but_status_eq)
  with b' notin show ?thesis by simp
qed

lemma distMeters_PInf:
  "aLat = None \<or> aLng = None \<or> bLat = None \<or> bLng = None \<Longrightarrow>
     distMeters hv aLat aLng bLat bLng = PInf"
  by (auto simp: distMeters_def split: option.splits)

text \<open>
  Claim C7. When one of the four coordinates of a pair is null, \<open>distMeters\<close> returns
  \<^verbatim>\<open>Infinity\<close>; for a finite threshold \<open>c\<close> the loop body for such a pair leaves the
  players and the database as they are, and a whole pass neither changes nor writes a
  runner of whom a coordinate is unknown.
\<close>

theorem unknown_coordinates_no_catch:
  assumes "aLat = None \<or> aLng = None \<or> bLat = None \<or> bLng = None"
  shows "distMeters hv aLat aLng bLat bLng = PInf \<and>
     (\<forall>aId a bId b ps d. o_lat a = aLat \<and> o_lng a = aLng \<and> map_of ps bId = Some b \<and>
          o_lat b = bLat \<and> o_lng b = bLng
        \<longrightarrow> catch_inner hv (Fin c) aId a bId (ps, d) = (ps, d)) \<and>
     (\<forall>bId b ps d. map_of ps bId = Some b \<and> (o_lat b = None \<or> o_lng b = None)
        \<longrightarrow> map_of (fst (detect_catches hv (Fin c) (ps, d))) bId = Some b \<and>
            bId \<notin> snd ` set (new_log d (snd (detect_catches hv (Fin c) (ps, d)))))"
proof (intro conjI allI impI)
  show inf: "distMeters hv aLat aLng bLat bLng = PInf"
    using assms by (rule distMeters_PInf)
  fix aId bId and a b :: player and ps :: players_obj and d :: db
  assume "o_lat a = aLat \<and> o_lng a = aLng \<and> map_of ps bId = Some b \<and>
          o_lat b = bLat \<and> o_lng b = bLng"
  with inf show "catch_inner hv (Fin c) aId a bId (ps, d) = (ps, d)"
    by (simp add: catch_inner_def)
next
  fix bId and b :: player and ps :: players_obj and d :: db
  assume b: "map_of ps bId = Some b \<and> (o_lat b = None \<or> o_lng b = None)"
  have "\<not> caught_pair hv (Fin c) ps bId"
  proof
    assume "caught_pair hv (Fin c) ps bId"
    then obtain a :: player where "o_lat b \<noteq> None"
      "js_le (distMeters hv (o_lat a) (o_lng a) (o_lat b) (o_lng b)) (Fin c)"
      using b by (auto simp: caught_pair_def)
    moreover from this(1) b have "o_lng b = None" by auto
    then have "distMeters hv (o_lat a) (o_lng a) (o_lat b) (o_lng b) = PInf"
      by (simp add: distMeters_PInf)
    ultimately show False by simp
  qed
  with b show "map_of (fst (detect_catches hv (Fin c) (ps, d))) bId = Some b"
    "bId \<notin> snd ` set (new_log d (snd (detect_catches hv (Fin c) (ps, d))))"
    using detect_catches_unchanged by blast+
qed

theorem unknown_coordinates_no_catch_witness:
  "(o_lat hunter3 = None \<or> o_lng hunter3 = None \<or> o_lat runner1 = None \<or> o_lng runner1 = None)
   \<and> distMeters haversine (o_lat hunter3) (o_lng hunter3) (o_lat runner1) (o_lng runner1) = PInf
   \<and> map_of [(''h3'', hunter3), (''r1'', runner1)] ''r1'' = Some runner1
   \<and> catch_inner haversine (Fin 30) ''h3'' hunter3 ''r1''
        ([(''h3'', hunter3), (''r1'', runner1)], empty_db) =
        ([(''h3'', hunter3), (''r1'', runner1)], empty_db)
   \<and> map_of [(''h1'', hunter1), (''r3'', runner3)] ''r3'' = Some runner3
   \<and> (o_lat runner3 = None \<or> o_lng runner3 = None)
   \<and> map_of (fst (detect_catches haversine (Fin 30)
                    ([(''h1'', hunter1), (''r3'', runner3)], empty_db))) ''r3'' = Some runner3"
proof -
  have h: "o_lat hunter3 = None \<or> o_lng hunter3 = None \<or> o_lat runner1 = None \<or>
           o_lng runner1 = None"
    by (simp add: hunter3_def)
  have m: "map_of [(''h3'', hunter3), (''r1'', runner1)] ''r1'' = Some runner1" by simp
  have m3: "map_of [(''h1'', hunter1), (''r3'', runner3)] ''r3'' = Some runner3" by simp
  have u3: "o_lat runner3 = None \<or> o_lng runner3 = None" by (simp add: runner3_def)
  note inst = unknown_coordinates_no_catch[OF h, of haversine 30]
  from inst have pair: "catch_inner haversine (Fin 30) ''h3'' hunter3 ''r1''
        ([(''h3'', hunter3), (''r1'', runner1)], empty_db) =
        ([(''h3'', hunter3), (''r1'', runner1)], empty_db)"
    using m by blast
  from inst have pass: "map_of (fst (detect_catches haversine (Fin 30)
                    ([(''h1'', hunter1), (''r3'', runner3)], empty_db))) ''r3'' = Some runner3"
    using m3 u3 by blast
  from inst h m m3 u3 pair pass show ?thesis by blast
qed

text \<open>
  Claim C4. In a catch-detection pass from \<open>(ps, d)\<close> to \<open>(ps', d')\<close>: a player caught
  at the start is caught at the end; every player's final status is the initial one or
  \<^verbatim>\<open>'caught'\<close>; each single step of the inner loop keeps a caught player caught (so a
  runner caught during the pass stays caught); and the status updates written by the
  pass are all \<^verbatim>\<open>'caught'\<close> and name pairwise different players: at most one write for a
  runner, however many hunters are within range.
\<close>

theorem catch_status_monotonic:
  assumes "detect_catches hv cm (ps, d) = (ps', d')"
  shows "(\<forall>k. is_caught ps k \<longrightarrow> is_caught ps' k) \<and>
     (\<forall>k p. map_of ps k = Some p \<longrightarrow>
        (\<exists>p'. map_of ps' k = Some p' \<and> (o_status p' = o_status p \<or> o_status p' = ''caught''))) \<and>
     (\<forall>aId a bId s k. is_caught (fst s) k \<longrightarrow> is_caught (fst (catch_inner hv cm aId a bId s)) k) \<and>
     status_log d' = status_log d @ new_log d d' \<and>
     distinct (map snd (new_log d d')) \<and>
     (\<forall>e \<in> set (new_log d d'). fst e = ''caught'')"
proof -
  have inv: "catch_inv hv cm ps d (ps', d')"
    using catch_inv_detect[of hv cm ps d] assms by simp
  then have ev: "obj_evolves ps ps'" by (simp add: catch_inv_def)
  have 1: "\<forall>k. is_caught ps k \<longrightarrow> is_caught ps' k"
    using is_caught_detect[of ps _ hv cm d] assms by simp
  have 2: "\<forall>k p. map_of ps k = Some p \<longrightarrow>
        (\<exists>p'. map_of ps' k = Some p' \<and> (o_status p' = o_status p \<or> o_status p' = ''caught''))"
    using obj_evolves_map_of[OF ev] by (auto simp: same_but_status_def)
  have 3: "\<forall>aId a bId s k. is_caught (fst s) k \<longrightarrow>
             is_caught (fst (catch_inner hv cm aId a bId s)) k"
    using is_caught_inner by blast
  from inv have 4: "status_log d' = status_log d @ new_log d d'"
    and 5: "distinct (map snd (new_log d d'))"
    and 6: "\<forall>e \<in> set (new_log d d'). fst e = ''caught''"
    by (simp_all add: catch_inv_def)
  from 1 2 3 4 5 6 show ?thesis by blast
qed

theorem catch_status_monotonic_witness:
  "detect_catches haversine (Fin 30) (duo_ps, empty_db) =
     ([(''h1'', hunter1), (''h2'', hunter2), (''r1'', runner1\<lparr>o_status := ''caught''\<rparr>)],
      empty_db\<lparr>status_log := [(''caught'', ''r1'')]\<rparr>)
   \<and> caught_pair haversine (Fin 30) duo_ps ''r1''
   \<and> new_log empty_db (empty_db\<lparr>status_log := [(''caught'', ''r1'')]\<rparr>) = [(''caught'', ''r1'')]
   \<and> distinct (map snd (new_log empty_db (empty_db\<lparr>status_log := [(''caught'', ''r1'')]\<rparr>)))"
proof -
  have n: "new_log empty_db (empty_db\<lparr>status_log := [(''caught'', ''r1'')]\<rparr>) =
           [(''caught'', ''r1'')]"
    by (simp add: new_log_def empty_db_def)
  have c: "caught_pair haversine (Fin 30) duo_ps ''r1''"
    unfolding caught_pair_def
    by (rule exI[of _ "''h2''"], rule exI[of _ hunter2], rule exI[of _ runner1])
      (simp add: duo_ps_def hunter2_def runner1_def distMeters_def haversine_same)
  from catch_status_monotonic[OF detect_duo] detect_duo n c show ?thesis by simp
qed

section \<open>The snapshot and the projection\<close>

lemma set_update_subset: "set (AList.update k v al) \<subseteq> insert (k, v) (set al)"
  by (induction al) auto

lemma build_players_aux:
  assumes "distinct (map fst acc)" "\<forall>e \<in> set acc. o_id (snd e) = fst e"
  shows "distinct (map fst (foldl (\<lambda>ps r. AList.update (r_id r) (mk_player r) ps) acc rows)) \<and>
         (\<forall>e \<in> set (foldl (\<lambda>ps r. AList.update (r_id r) (mk_player r) ps) acc rows).
            o_id (snd e) = fst e)"
  using assms
proof (induction rows arbitrary: acc)
  case Nil
  then show ?case by simp
next
  case (Cons r rows)
  have 1: "distinct (map fst (AList.update (r_id r) (mk_player r) acc))"
    using Cons.prems(1) by (rule distinct_update)
  have 2: "\<forall>e \<in> set (AList.update (r_id r) (mk_player r) acc). o_id (snd e) = fst e"
  proof
    fix e assume "e \<in> set (AList.update (r_id r) (mk_player r) acc)"
    then have "e = (r_id r, mk_player r) \<or> e \<in> set acc" using set_update_subset by fastforce
    then show "o_id (snd e) = fst e" using Cons.prems(2) by (auto simp: mk_player_def)
  qed
  from Cons.IH[OF 1 2] show ?case by simp
qed

lemma snapshot_distinct: "distinct (map fst (snapshot d room))"
  using build_players_aux[of "[]"] by (simp add: snapshot_def build_players_def)

lemma snapshot_ids: "(k, p) \<in> set (snapshot d room) \<Longrightarrow> o_id p = k"
  using build_players_aux[of "[]" "playerRows d (toUpperCase room)"]
  by (fastforce simp: snapshot_def build_players_def)

lemma snapshot_map_of_id: "map_of (snapshot d room) k = Some p \<Longrightarrow> o_id p = k"
  by (rule snapshot_ids) (rule map_of_SomeD)

lemma get_state_Inr:
  assumes "get_state hv d nowTs sendTs room pq cq = (Inr r, d')"
  shows "d' = snd (detect_catches hv (catchMeters_of cq) (snapshot d room, d)) \<and>
     s_players r =
       map (\<lambda>e. json_view (view_of hv
              (find_viewer (fst (detect_catches hv (catchMeters_of cq) (snapshot d room, d))) pq)
              (snd e)))
         (fst (detect_catches hv (catchMeters_of cq) (snapshot d room, d)))"
  using assms
  by (auto simp: get_state_def Let_def snapshot_def case_prod_beta split: option.splits)


lemma int_val_defined: "int_val x \<noteq> JUndefined"
  by (simp add: int_val_def split: option.splits)

lemma rounded_distance_defined: "rounded_distance hv v p \<noteq> JUndefined"
  by (simp add: rounded_distance_def)

text \<open>A state request leaves the rooms and the locations as they are.\<close>

lemma get_state_rooms:
  "rooms (snd (get_state hv d nowTs sendTs room pq cq)) = rooms d \<and>
   locations (snd (get_state hv d nowTs sendTs room pq cq)) = locations d"
proof (cases "getRoom d (toUpperCase room)")
  case None
  then show ?thesis by (simp add: get_state_def)
next
  case (Some roomRow)
  have "catch_inv hv (catchMeters_of cq) (snapshot d room) d
          (detect_catches hv (catchMeters_of cq) (snapshot d room, d))"
    by (rule catch_inv_detect)
  then show ?thesis using Some by (simp add: get_state_def Let_def snapshot_def catch_inv_def)
qed

text \<open>The rounded distance on the wire, when the distance is a finite number.\<close>

lemma json_round_Fin: "json_val (JNum (Math_round (Fin x))) = JNum (Fin (of_int \<lfloor>x + 1 / 2\<rfloor>))"
  by simp

lemma json_view_anonymous:
  "json_view (view_of hv NoViewer p) =
     [(''id'', JStr (o_id p)), (''name'', JStr (o_name p)), (''role'', JStr (o_role p)),
      (''status'', JStr (o_status p))]"
  by (simp add: view_of_def json_view_def)


lemma json_view_runner_hunter:
  assumes "v \<noteq> NoViewer" "viewer_role v \<noteq> Some ''hunter''" "Some (o_id p) \<noteq> viewer_id v"
    "o_role p = ''hunter''"
  shows "json_view (view_of hv v p) =
     [(''id'', JStr (o_id p)), (''name'', JStr (o_name p)), (''role'', JStr (o_role p)),
      (''status'', JStr (o_status p)),
      (''distanceToRunner'', json_val (rounded_distance hv v p)),
      (''lastSeen'', json_val (int_val (o_lastSeen p)))]"
  using assms
  by (simp add: view_of_def json_view_def int_val_defined rounded_distance_defined)

text \<open>
  Claim C9. In the response to a state request with no \<^verbatim>\<open>playerId\<close>, every emitted player
  view has exactly the fields \<open>id\<close>, \<open>name\<close>, \<open>role\<close>, \<open>status\<close>, in this order: no
  \<open>lat\<close>, no \<open>lng\<close> and no distance field.
\<close>

theorem anonymous_view_fields:
  assumes "get_state hv d nowTs sendTs room None cq = (Inr r, d')"
  shows "\<forall>w \<in> set (s_players r).
           map fst w = [''id'', ''name'', ''role'', ''status''] \<and>
           ''lat'' \<notin> fst ` set w \<and> ''lng'' \<notin> fst ` set w \<and>
           ''distanceToViewer'' \<notin> fst ` set w \<and> ''distanceToRunner'' \<notin> fst ` set w"
proof
  fix w assume w: "w \<in> set (s_players r)"
  let ?st = "detect_catches hv (catchMeters_of cq) (snapshot d room, d)"
  have "find_viewer (fst ?st) None = NoViewer" by (simp add: find_viewer_def)
  with get_state_Inr[OF assms] w obtain e where
    "w = json_view (view_of hv NoViewer (snd e))" by auto
  then have "map fst w = [''id'', ''name'', ''role'', ''status'']"
    by (simp add: json_view_anonymous)
  moreover from this have "fst ` set w = set [''id'', ''name'', ''role'', ''status'']"
    by (metis set_map)
  ultimately show "map fst w = [''id'', ''name'', ''role'', ''status''] \<and>
           ''lat'' \<notin> fst ` set w \<and> ''lng'' \<notin> fst ` set w \<and>
           ''distanceToViewer'' \<notin> fst ` set w \<and> ''distanceToRunner'' \<notin> fst ` set w"
    by simp
qed

section \<open>The state request on the sample data\<close>

lemma getRoom_demo: "getRoom demo_db ''ROOM01'' = Some demo_room"
  by (simp add: getRoom_def demo_db_def demo_room_def)

lemma zoneRadius_demo: "zoneRadius demo_room 46000 = 700"
  by (simp add: zoneRadius_def demo_room_def int_or_def to_number_def)

lemma build_demo:
  "build_players (playerRows demo_db ''ROOM01'') =
     [(''h1'', hunter1), (''h3'', hunter3), (''r1'', runner1), (''r2'', runner2)]"
  using snapshot_demo by (simp add: snapshot_def toUpperCase_room01)

lemma catchMeters_default: "catchMeters_of None = Fin 30"
  by (simp add: catchMeters_of_def js_or_def parseInt_str_30)

lemma get_state_demo_anon:
  "get_state haversine demo_db 46000 46001 ''room01'' None None =
     (Inr demo_anon_response, demo_db')"
  by (simp add: get_state_def Let_def toUpperCase_room01 getRoom_demo zoneRadius_demo build_demo
      catchMeters_default detect_demo find_viewer_def json_view_anonymous)
    (simp add: hunter1_def hunter3_def runner1_def runner2_def demo_room_def
      demo_anon_response_def)

lemma get_state_demo_runner:
  "get_state haversine demo_db 46000 46001 ''room01'' (Some ''r1'') None =
     (Inr demo_runner_response, demo_db')"
  by (simp add: get_state_def Let_def toUpperCase_room01 getRoom_demo zoneRadius_demo build_demo
      catchMeters_default detect_demo find_viewer_def)
    (simp add: hunter1_def hunter3_def runner1_def runner2_def demo_room_def view_of_def
      json_view_def rounded_distance_def distMeters_def haversine_same real_val_def int_val_def
      demo_runner_response_def)

theorem anonymous_view_fields_witness:
  "get_state haversine demo_db 46000 46001 ''room01'' None None =
     (Inr demo_anon_response, demo_db')
   \<and> map (map fst) (s_players demo_anon_response) =
       [[''id'', ''name'', ''role'', ''status''], [''id'', ''name'', ''role'', ''status''],
        [''id'', ''name'', ''role'', ''status''], [''id'', ''name'', ''role'', ''status'']]"
  using anonymous_view_fields[OF get_state_demo_anon] get_state_demo_anon
  by (simp add: demo_anon_response_def)

lemma find_viewer_player:
  "vid \<noteq> [] \<Longrightarrow> map_of ps vid = Some v \<Longrightarrow> find_viewer ps (Some vid) = PlayerViewer v"
  by (simp add: find_viewer_def)

lemma distance_field:
  assumes "o_lat v' = o_lat v" "o_lng v' = o_lng v" "o_lat p' = o_lat p" "o_lng p' = o_lng p"
  shows "json_val (rounded_distance hv (PlayerViewer v') p') =
     (case (o_lat v, o_lng v, o_lat p, o_lng p) of
        (Some v1, Some v2, Some p1, Some p2) \<Rightarrow> (case hv v1 v2 p1 p2 of
                       Fin x \<Rightarrow> JNum (Fin (of_int \<lfloor>x + 1 / 2\<rfloor>))
                     | _ \<Rightarrow> JNull)
      | _ \<Rightarrow> JNull)"
  using assms
  by (cases "o_lat v"; cases "o_lng v"; cases "o_lat p"; cases "o_lng p")
    (simp_all add: rounded_distance_def distMeters_def split: jsnum.splits)

text \<open>
  What a runner is shown of the hunters. When the \<^verbatim>\<open>playerId\<close> of a state request is the
  id of a runner \<open>v\<close> of the room, the emitted views correspond one by one to the players
  of the snapshot, and the view of each hunter has no \<open>lat\<close> and no \<open>lng\<close> field. Its
  \<open>distanceToRunner\<close> is \<^verbatim>\<open>null\<close> when one of the four coordinates is unknown; when all
  four are known, it is the integer \<open>floor(x + 1/2)\<close> if lines 63 to 73 return a finite
  distance \<open>x\<close> from \<open>v\<close> to the hunter, and \<^verbatim>\<open>null\<close> if they return NaN (or an infinity).
\<close>

lemma hunter_view_for_runner:
  assumes gs: "get_state hv d nowTs sendTs room (Some vid) cq = (Inr r, d')"
    and vid: "vid \<noteq> []" "map_of (snapshot d room) vid = Some v" "o_role v = ''runner''"
  shows "list_all2
     (\<lambda>e w. o_role (snd e) = ''hunter'' \<longrightarrow>
        ''lat'' \<notin> fst ` set w \<and> ''lng'' \<notin> fst ` set w \<and>
        map_of w ''distanceToRunner'' =
          Some (case (o_lat v, o_lng v, o_lat (snd e), o_lng (snd e)) of
                  (Some v1, Some v2, Some p1, Some p2) \<Rightarrow>
                    (case hv v1 v2 p1 p2 of
                       Fin x \<Rightarrow> JNum (Fin (of_int \<lfloor>x + 1 / 2\<rfloor>))
                     | _ \<Rightarrow> JNull)
                | _ \<Rightarrow> JNull))
     (snapshot d room) (s_players r)"
proof -
  let ?ps0 = "snapshot d room"
  let ?st = "detect_catches hv (catchMeters_of cq) (?ps0, d)"
  let ?G = "\<lambda>e w. o_role (snd e) = ''hunter'' \<longrightarrow>
        ''lat'' \<notin> fst ` set w \<and> ''lng'' \<notin> fst ` set w \<and>
        map_of w ''distanceToRunner'' =
          Some (case (o_lat v, o_lng v, o_lat (snd e), o_lng (snd e)) of
                  (Some v1, Some v2, Some p1, Some p2) \<Rightarrow>
                    (case hv v1 v2 p1 p2 of
                       Fin x \<Rightarrow> JNum (Fin (of_int \<lfloor>x + 1 / 2\<rfloor>))
                     | _ \<Rightarrow> JNull)
                | _ \<Rightarrow> JNull)"
  have ev: "obj_evolves ?ps0 (fst ?st)"
    using catch_inv_detect[of hv "catchMeters_of cq" ?ps0 d] by (simp add: catch_inv_def)
  from obj_evolves_map_of[OF ev vid(2)] obtain v' where
    v': "map_of (fst ?st) vid = Some v'" "same_but_status v v'" by blast
  have viewer: "find_viewer (fst ?st) (Some vid) = PlayerViewer v'"
    using vid(1) v'(1) by (rule find_viewer_player)
  have vfields: "o_role v' = ''runner''" "o_id v' = vid" "o_lat v' = o_lat v" "o_lng v' = o_lng v"
    using v'(2) vid(3) snapshot_map_of_id[OF vid(2)] by (simp_all add: same_but_status_def)
  let ?F = "\<lambda>e. json_view (view_of hv (PlayerViewer v') (snd e))"
  have players: "s_players r = map ?F (fst ?st)"
    using get_state_Inr[OF gs] viewer by simp
  have "list_all2 (\<lambda>e e'. ?G e (?F e')) ?ps0 (fst ?st)"
  proof (rule list.rel_mono_strong[OF ev[unfolded obj_evolves_def]])
    fix e e' :: "string \<times> player"
    assume e: "e \<in> set ?ps0" and rel: "fst e' = fst e \<and> same_but_status (snd e) (snd e')"
    show "?G e (?F e')"
    proof
      assume hunter: "o_role (snd e) = ''hunter''"
      have id: "o_id (snd e) = fst e" using e snapshot_ids[of "fst e" "snd e"] by simp
      have pf: "o_role (snd e') = ''hunter''" "o_id (snd e') = fst e"
        "o_lat (snd e') = o_lat (snd e)" "o_lng (snd e') = o_lng (snd e)"
        using rel hunter id by (simp_all add: same_but_status_def)
      have "fst e \<noteq> vid"
      proof
        assume "fst e = vid"
        with e have "(vid, snd e) \<in> set ?ps0" by (metis prod.collapse)
        with snapshot_distinct have "map_of ?ps0 vid = Some (snd e)" by (rule map_of_is_SomeI)
        with vid(2,3) hunter show False by simp
      qed
      with pf vfields have other: "Some (o_id (snd e')) \<noteq> viewer_id (PlayerViewer v')" by simp
      have notHunter: "viewer_role (PlayerViewer v') \<noteq> Some ''hunter''"
        using vfields by simp
      have view: "?F e' =
        [(''id'', JStr (o_id (snd e'))), (''name'', JStr (o_name (snd e'))),
         (''role'', JStr (o_role (snd e'))), (''status'', JStr (o_status (snd e'))),
         (''distanceToRunner'', json_val (rounded_distance hv (PlayerViewer v') (snd e'))),
         (''lastSeen'', json_val (int_val (o_lastSeen (snd e'))))]"
        by (rule json_view_runner_hunter[OF _ notHunter other pf(1)]) simp
      have dist: "json_val (rounded_distance hv (PlayerViewer v') (snd e')) =
        (case (o_lat v, o_lng v, o_lat (snd e), o_lng (snd e)) of
           (Some v1, Some v2, Some p1, Some p2) \<Rightarrow> (case hv v1 v2 p1 p2 of
                       Fin x \<Rightarrow> JNum (Fin (of_int \<lfloor>x + 1 / 2\<rfloor>))
                     | _ \<Rightarrow> JNull)
         | _ \<Rightarrow> JNull)"
        by (rule distance_field) (use vfields pf in simp_all)
      show "''lat'' \<notin> fst ` set (?F e') \<and> ''lng'' \<notin> fst ` set (?F e') \<and>
        map_of (?F e') ''distanceToRunner'' =
          Some (case (o_lat v, o_lng v, o_lat (snd e), o_lng (snd e)) of
                  (Some v1, Some v2, Some p1, Some p2) \<Rightarrow>
                    (case hv v1 v2 p1 p2 of
                       Fin x \<Rightarrow> JNum (Fin (of_int \<lfloor>x + 1 / 2\<rfloor>))
                     | _ \<Rightarrow> JNull)
                | _ \<Rightarrow> JNull)"
        unfolding view dist[symmetric] by simp
    qed
  qed
  then show ?thesis unfolding players by (simp add: list_all2_map2)
qed






lemma hunter_view_for_runner_demo:
  "get_state haversine demo_db 46000 46001 ''room01'' (Some ''r1'') None =
     (Inr demo_runner_response, demo_db')
   \<and> ''r1'' \<noteq> [] \<and> map_of (snapshot demo_db ''room01'') ''r1'' = Some runner1
   \<and> o_role runner1 = ''runner''
   \<and> map fst (s_players demo_runner_response ! 0) =
        [''id'', ''name'', ''role'', ''status'', ''distanceToRunner'', ''lastSeen'']
   \<and> map_of (s_players demo_runner_response ! 0) ''distanceToRunner'' = Some (JNum (Fin 0))
   \<and> map_of (s_players demo_runner_response ! 1) ''distanceToRunner'' = Some JNull"
proof -
  have r1: "map_of (snapshot demo_db ''room01'') ''r1'' = Some runner1"
    by (simp add: snapshot_demo)
  have role: "o_role runner1 = ''runner''" by (simp add: runner1_def)
  have ne: "''r1'' \<noteq> []" by simp
  from hunter_view_for_runner[OF get_state_demo_runner ne r1 role] get_state_demo_runner r1 role
  show ?thesis by (simp add: demo_runner_response_def)
qed

subsection \<open>Two located players at antipodal points\<close>

lemma getRoom_polar: "getRoom polar_db ''ROOM01'' = Some demo_room"
  by (simp add: getRoom_def polar_db_def demo_room_def)

lemma playerRows_polar:
  "playerRows polar_db ''ROOM01'' =
    [\<lparr>r_id = ''h8'', r_name = ''Hilde'', r_role = ''hunter'', r_status = Some ''ready'',
      r_lastSeen = Some 1500, r_lat = Some 88.39, r_lng = Some 116.1, r_ts = Some 1500\<rparr>,
     \<lparr>r_id = ''r8'', r_name = ''Rolf'', r_role = ''runner'', r_status = Some ''ready'',
      r_lastSeen = Some 1700, r_lat = Some (- 88.39), r_lng = Some (- 63.9),
      r_ts = Some 1700\<rparr>]"
  by (simp add: playerRows_def polar_db_def join_row_def)

lemma build_polar:
  "build_players (playerRows polar_db ''ROOM01'') =
     [(''h8'', polar_hunter), (''r8'', polar_runner)]"
  by (simp add: playerRows_polar build_players_def mk_player_def str_or_def int_or_null_def
      polar_hunter_def polar_runner_def)

lemma snapshot_polar:
  "snapshot polar_db ''room01'' = [(''h8'', polar_hunter), (''r8'', polar_runner)]"
  by (simp add: snapshot_def toUpperCase_room01 build_polar)

lemma detect_polar:
  assumes "hv 88.39 116.1 (- 88.39) (- 63.9) = NaN"
  shows "detect_catches hv (Fin 30)
     ([(''h8'', polar_hunter), (''r8'', polar_runner)], polar_db) =
     ([(''h8'', polar_hunter), (''r8'', polar_runner)], polar_db)"
  using assms
  by (simp add: detect_catches_def catch_outer_def catch_inner_def polar_hunter_def
      polar_runner_def distMeters_def)

lemma get_state_polar:
  assumes "hv 88.39 116.1 (- 88.39) (- 63.9) = NaN" "hv (- 88.39) (- 63.9) 88.39 116.1 = NaN"
  shows "get_state hv polar_db 46000 46001 ''room01'' (Some ''r8'') None =
     (Inr polar_response, polar_db)"
  using assms(2)
  by (simp add: get_state_def Let_def toUpperCase_room01 getRoom_polar zoneRadius_demo
      build_polar catchMeters_default detect_polar[where hv = hv, OF assms(1)] find_viewer_def)
    (simp add: polar_hunter_def polar_runner_def demo_room_def view_of_def
      json_view_def rounded_distance_def distMeters_def real_val_def
      int_val_def polar_response_def)

lemma haversine_antipodal:
  "haversine 88.39 116.1 (- 88.39) (- 63.9) = Fin (6371000 * pi)"
  "haversine (- 88.39) (- 63.9) 88.39 116.1 = Fin (6371000 * pi)"
proof -
  have A: "hav_A 88.39 116.1 (- 88.39) (- 63.9) = 1" "hav_A (- 88.39) (- 63.9) 88.39 116.1 = 1"
    using sin_cos_squared_add[of "8839 * pi / 18000"]
    by (simp_all add: hav_A_def toRad_def Let_def power2_eq_square)
  show "haversine 88.39 116.1 (- 88.39) (- 63.9) = Fin (6371000 * pi)"
    "haversine (- 88.39) (- 63.9) 88.39 116.1 = Fin (6371000 * pi)"
    unfolding haversine_def A by (simp_all add: dist_of_A_def atan2_def)
qed

text \<open>
  The distance the haversine formula gives for the pair, rounded: \<open>6371000 * pi\<close> is
  20015086.79..., which needs \<open>pi\<close> to eight decimals. The bounds come from Machin's
  formula and the alternating series of the arc tangent.
\<close>

lemma arctan_series_bounds:
  fixes x :: real
  assumes "0 < x" "x \<le> 1"
  shows "(\<Sum>i<2 * n. (- 1) ^ i * (1 / real (i * 2 + 1) * x ^ (i * 2 + 1))) \<le> arctan x"
    and "arctan x \<le> (\<Sum>i<2 * n + 1. (- 1) ^ i * (1 / real (i * 2 + 1) * x ^ (i * 2 + 1)))"
proof -
  have ax: "\<bar>x\<bar> \<le> 1" using assms by simp
  have pos: "0 < 1 / real (0 * 2 + 1) * x ^ (0 * 2 + 1)" using assms by simp
  from summable_Leibniz(2)[OF zeroseq_arctan_series[OF ax] monoseq_arctan_series[OF ax]] pos
  have "arctan x \<in> {(\<Sum>i<2 * n. (- 1) ^ i * (1 / real (i * 2 + 1) * x ^ (i * 2 + 1))) ..
                    (\<Sum>i<2 * n + 1. (- 1) ^ i * (1 / real (i * 2 + 1) * x ^ (i * 2 + 1)))}"
    unfolding arctan_series[OF ax] by blast
  then show "(\<Sum>i<2 * n. (- 1) ^ i * (1 / real (i * 2 + 1) * x ^ (i * 2 + 1))) \<le> arctan x"
    and "arctan x \<le> (\<Sum>i<2 * n + 1. (- 1) ^ i * (1 / real (i * 2 + 1) * x ^ (i * 2 + 1)))"
    by simp_all
qed

lemma arctan_fifth:
  "19739555970 / 100000000000 < arctan (1 / 5 :: real)"
  "arctan (1 / 5 :: real) < 19739555990 / 100000000000"
proof -
  have "6679449362 / 33837890625 \<le> arctan (1 / 5 :: real)"
    using arctan_series_bounds(1)[of "1 / 5" 3]
    by (simp add: eval_nat_numeral sum.lessThan_Suc)
  then show "19739555970 / 100000000000 < arctan (1 / 5 :: real)" by linarith
  have "arctan (1 / 5 :: real) \<le> 2170821043343 / 10997314453125"
    using arctan_series_bounds(2)[of "1 / 5" 3]
    by (simp add: eval_nat_numeral sum.lessThan_Suc)
  then show "arctan (1 / 5 :: real) < 19739555990 / 100000000000" by linarith
qed

lemma arctan_239:
  "4184076000 / 1000000000000 < arctan (1 / 239 :: real)"
  "arctan (1 / 239 :: real) < 4184076010 / 1000000000000"
proof -
  have "(1 / 239 - 1 / (3 * 239 ^ 3)) \<le> arctan (1 / 239 :: real)"
    using arctan_series_bounds(1)[of "1 / 239" 1]
    by (simp add: eval_nat_numeral sum.lessThan_Suc)
  then show "4184076000 / 1000000000000 < arctan (1 / 239 :: real)" by simp
  have "arctan (1 / 239 :: real) \<le> 1 / 239 - 1 / (3 * 239 ^ 3) + 1 / (5 * 239 ^ 5)"
    using arctan_series_bounds(2)[of "1 / 239" 1]
    by (simp add: eval_nat_numeral sum.lessThan_Suc)
  then show "arctan (1 / 239 :: real) < 4184076010 / 1000000000000" by simp
qed

lemma pi_bounds: "3.14159261 < pi" "pi < 3.14159276"
  using machin arctan_fifth arctan_239 by simp_all

lemma antipodal_rounded:
  "Math_round (haversine 88.39 116.1 (- 88.39) (- 63.9)) = Fin 20015087"
  "Math_round (haversine (- 88.39) (- 63.9) 88.39 116.1) = Fin 20015087"
proof -
  have "\<lfloor>6371000 * pi + 1 / 2\<rfloor> = (20015087 :: int)"
    using pi_bounds unfolding floor_eq_iff by simp
  then show "Math_round (haversine 88.39 116.1 (- 88.39) (- 63.9)) = Fin 20015087"
    "Math_round (haversine (- 88.39) (- 63.9) 88.39 116.1) = Fin 20015087"
    unfolding haversine_antipodal by simp_all
qed

text \<open>
  Claim C2. The claim is that the view a runner gets of a hunter carries, as
  \<open>distanceToRunner\<close>, the rounded haversine distance between the two, and \<^verbatim>\<open>null\<close> only
  when a coordinate is unknown. The hunter \<open>h8\<close> at (88.39, 116.1) and the runner \<open>r8\<close> at
  (-88.39, -63.9) are both located, and their rounded haversine distance is 20015087
  metres. In double arithmetic \<^verbatim>\<open>A\<close> is 1.0000000000000002 at line 71 for this pair,
  \<^verbatim>\<open>Math.sqrt(1 - A)\<close> is NaN, and lines 72 and 73 return NaN. For every kernel \<open>hv\<close> that
  returns NaN at the pair, in its two orders, the state request of \<open>r8\<close> on \<open>polar_db\<close>
  leaves the store as it is and answers \<open>polar_response\<close>, in which the view of \<open>h8\<close> has
  the \<open>distanceToRunner\<close> \<^verbatim>\<open>null\<close>.
\<close>

theorem antipodal_distance_null:
  assumes "hv 88.39 116.1 (- 88.39) (- 63.9) = NaN" "hv (- 88.39) (- 63.9) 88.39 116.1 = NaN"
  shows "snapshot polar_db ''room01'' = [(''h8'', polar_hunter), (''r8'', polar_runner)]
     \<and> (o_role polar_hunter, o_lat polar_hunter, o_lng polar_hunter) =
         (''hunter'', Some 88.39, Some 116.1)
     \<and> (o_role polar_runner, o_lat polar_runner, o_lng polar_runner) =
         (''runner'', Some (- 88.39), Some (- 63.9))
     \<and> Math_round (haversine (- 88.39) (- 63.9) 88.39 116.1) = Fin 20015087
     \<and> get_state hv polar_db 46000 46001 ''room01'' (Some ''r8'') None =
         (Inr polar_response, polar_db)
     \<and> map_of (s_players polar_response ! 0) ''id'' = Some (JStr ''h8'')
     \<and> map_of (s_players polar_response ! 0) ''distanceToRunner'' = Some JNull"
  using get_state_polar[OF assms] antipodal_rounded(2)
  by (simp add: snapshot_polar polar_hunter_def polar_runner_def polar_response_def)

theorem antipodal_distance_null_witness:
  "haversine_fp 88.39 116.1 (- 88.39) (- 63.9) = NaN
   \<and> haversine_fp (- 88.39) (- 63.9) 88.39 116.1 = NaN
   \<and> get_state haversine_fp polar_db 46000 46001 ''room01'' (Some ''r8'') None =
       (Inr polar_response, polar_db)
   \<and> map_of (s_players polar_response ! 0) ''distanceToRunner'' = Some JNull"
  using antipodal_distance_null[of haversine_fp]
  by (simp add: haversine_fp_def antipodal_A_def dist_of_A_def polar_response_def)

section \<open>Location updates\<close>

lemma post_join_demo:
  "post_join room_db ''p1'' 2000
     \<lparr>j_room = Some ''room01'', j_name = Some ''Ann'', j_role = Some ''runner''\<rparr> =
     (Inr (''p1'', ''Ann'', ''runner'', ''ROOM01''), joined_db)"
  by (simp add: post_join_def Let_def str_or_def toUpperCase_room01 getRoom_def room_db_def
      empty_db_def demo_room_def joined_db_def)

lemma post_location_demo:
  "post_location joined_db 3000 \<lparr>playerId = Some ''p1'', lat = CNumber 5, lng = CNull\<rparr> =
     (Inr 3000, located_db)"
  by (simp add: post_location_def Let_def str_or_def isFinite_def joined_db_def located_db_def
      upsert_location_def)

lemma playerRows_located:
  "playerRows located_db ''ROOM01'' =
     [\<lparr>r_id = ''p1'', r_name = ''Ann'', r_role = ''runner'', r_status = Some ''ready'',
       r_lastSeen = Some 3000, r_lat = Some 5, r_lng = None, r_ts = Some 3000\<rparr>]"
  by (simp add: playerRows_def located_db_def join_row_def)

text \<open>
  Claim C10. The claim is that in every snapshot row \<open>lat\<close> is null exactly when \<open>lng\<close> is,
  because the location endpoint rejects a write unless both coordinates are finite. The
  guard is the global \<^verbatim>\<open>isFinite\<close>, which reads \<^verbatim>\<open>null\<close> as 0: for a player who has
  joined, the body \<^verbatim>\<open>{"playerId": "p1", "lat": 5, "lng": null}\<close> is accepted, and the
  snapshot row of the player has \<open>lat\<close> 5 and \<open>lng\<close> null.
\<close>

theorem location_null_accepted:
  "post_join room_db ''p1'' 2000
     \<lparr>j_room = Some ''room01'', j_name = Some ''Ann'', j_role = Some ''runner''\<rparr> =
     (Inr (''p1'', ''Ann'', ''runner'', ''ROOM01''), joined_db)
   \<and> isFinite CNull
   \<and> post_location joined_db 3000 \<lparr>playerId = Some ''p1'', lat = CNumber 5, lng = CNull\<rparr> =
       (Inr 3000, located_db)
   \<and> map (\<lambda>r. (r_id r, r_lat r, r_lng r)) (playerRows located_db ''ROOM01'') =
       [(''p1'', Some 5, None)]"
  by (simp add: post_join_demo post_location_demo playerRows_located isFinite_def)

theorem location_null_accepted_witness:
  "str_or (Some ''p1'') [] \<noteq> [] \<and> isFinite (CNumber 5) \<and> isFinite CNull
   \<and> fst (post_location joined_db 3000
             \<lparr>playerId = Some ''p1'', lat = CNumber 5, lng = CNull\<rparr>) = Inr 3000
   \<and> map r_lat (playerRows located_db ''ROOM01'') = [Some 5]
   \<and> map r_lng (playerRows located_db ''ROOM01'') = [None]"
  using location_null_accepted by (simp add: str_or_def isFinite_def playerRows_located)

end
